theory Spec2Isabelle
  imports Complex_Main
begin

section \<open>The Wasserstein GAN trainer\<close>

text \<open>
  A shallow embedding of \<^verbatim>\<open>WassersteinGANTrainer\<close> (file
  \<^verbatim>\<open>WassersteinGANTrainer.py\<close>). The trainer owns two torch modules, keyed by
  the strings \<^verbatim>\<open>"G"\<close> and \<^verbatim>\<open>"D"\<close>, and a dictionary of statistics; its
  \<^verbatim>\<open>train\<close> method runs one update per epoch on the model the scheduling policy
  names.

  Tensor elements are modelled as real numbers, a tensor of shape (n, k) as a list of
  n rows, \<^verbatim>\<open>torch.cat\<close> along dimension 0 as list append and \<^verbatim>\<open>flatten\<close> as
  \<^const>\<open>concat\<close>. What the torch library does with shapes that do not fit, with
  devices and with the rounding of tensor arithmetic is outside the model. The one
  float that the trainer computes itself, \<^verbatim>\<open>n_batch / 2\<close>, is modelled as the
  double it is.
\<close>

subsection \<open>Data\<close>

datatype role = G | D

datatype error = IndexError | OverflowError

type_synonym tensor = "real list list"

text \<open>
  A torch module, as far as the trainer looks at it: the \<^verbatim>\<open>training\<close> flag that
  \<^verbatim>\<open>.train()\<close> sets and \<^verbatim>\<open>.eval()\<close> clears, and the values of the tensors
  that \<^verbatim>\<open>.parameters()\<close> yields, each flattened.
\<close>

record module =
  training :: bool
  parameters :: "real list list"

text \<open>
  The calls the trainer issues on its two modules and their optimizers, in the order
  it issues them. The trainer state keeps this sequence in the field \<open>calls\<close>; the
  source has no such field, it only records what the source does so that the order of
  mode switches and passes can be stated.
\<close>

datatype call =
    Eval_mode role
  | Train_mode role
  | Forward_pass role bool
  | Zero_grad role
  | Backward role
  | Opt_step role
  | Clamp role

text \<open>
  The trainer object. \<open>losses\<close> and \<open>epochs_trained\<close> are the dictionaries
  \<^verbatim>\<open>stats["losses"]\<close> and \<^verbatim>\<open>stats["epochs_trained"]\<close>, whose keys are fixed to
  the two roles. \<open>world\<close> stands for every mutable state outside the trainer that
  its collaborators read and write: the random number generator behind the two
  samplers and the buffers of the two optimizers.
\<close>

record 'w trainer =
  models :: "role \<Rightarrow> module"
  losses :: "role \<Rightarrow> real list"
  epochs_trained :: "role \<Rightarrow> nat"
  d_fpr :: "real list"
  d_recall :: "real list"
  d_precision :: "real list"
  d_thresh :: real
  device :: string
  world :: 'w
  calls :: "call list"

text \<open>
  The collaborators handed to the constructor, and those inherited from
  \<^verbatim>\<open>SuperTrainer\<close> and \<^verbatim>\<open>ToTrain\<close>, whose code is not part of the file:
  \<^item> \<open>totrain_next\<close> is \<^verbatim>\<open>self.totrain.next(self)\<close>, the scheduling policy;
  \<^item> \<open>latent_space\<close> and \<open>dataset\<close> are the two samplers; the second argument is
    the device, which \<^verbatim>\<open>train\<close> leaves out and the input functions pass;
  \<^item> \<open>forward\<close> is the forward pass of the module of a role, a function of the
    module's mode and parameters and of the input;
  \<^item> \<open>loss_functions\<close> are \<^verbatim>\<open>g_loss\<close> and \<^verbatim>\<open>d_loss\<close>;
  \<^item> \<open>optimizer_step\<close> is \<^verbatim>\<open>zero_grad(); backward(); step()\<close> on the optimizer
    of a role, which is bound to the parameters of that role's module: it yields the
    new values of these parameters;
  \<^item> \<open>all_Wasserstein_dists\<close> is the method of that name.
\<close>

record 'w collaborators =
  totrain_next :: "'w trainer \<Rightarrow> role"
  latent_space :: "int \<Rightarrow> string option \<Rightarrow> 'w \<Rightarrow> tensor \<times> 'w"
  dataset :: "int \<Rightarrow> string option \<Rightarrow> 'w \<Rightarrow> tensor \<times> 'w"
  forward :: "role \<Rightarrow> module \<Rightarrow> tensor \<Rightarrow> tensor"
  loss_functions :: "role \<Rightarrow> tensor \<Rightarrow> tensor \<Rightarrow> real"
  optimizer_step :: "role \<Rightarrow> tensor \<Rightarrow> tensor \<Rightarrow> 'w trainer \<Rightarrow> real list list \<times> 'w"
  all_Wasserstein_dists :: "tensor \<Rightarrow> tensor \<Rightarrow> real list"

subsection \<open>The constructor\<close>

text \<open>
  \<^verbatim>\<open>__init__\<close>: both loss sequences empty, both counters zero, the three rate
  sequences empty, \<^verbatim>\<open>d_thresh\<close> with its default 0.5.
\<close>

definition init :: "module \<Rightarrow> module \<Rightarrow> string \<Rightarrow> real option \<Rightarrow> 'w \<Rightarrow> 'w trainer" where
  "init generator discriminator dev thresh w =
     \<lparr>models = (\<lambda>r. case r of G \<Rightarrow> generator | D \<Rightarrow> discriminator),
      losses = (\<lambda>r. []),
      epochs_trained = (\<lambda>r. 0),
      d_fpr = [],
      d_recall = [],
      d_precision = [],
      d_thresh = (case thresh of None \<Rightarrow> 0.5 | Some t \<Rightarrow> t),
      device = dev,
      world = w,
      calls = []\<rparr>"

subsection \<open>Calls on a module\<close>

definition set_eval :: "role \<Rightarrow> 'w trainer \<Rightarrow> 'w trainer" where
  "set_eval r s =
     s\<lparr>models := (models s)(r := (models s r)\<lparr>training := False\<rparr>),
       calls := calls s @ [Eval_mode r]\<rparr>"

definition set_train :: "role \<Rightarrow> 'w trainer \<Rightarrow> 'w trainer" where
  "set_train r s =
     s\<lparr>models := (models s)(r := (models s r)\<lparr>training := True\<rparr>),
       calls := calls s @ [Train_mode r]\<rparr>"

definition call_model ::
  "'w collaborators \<Rightarrow> role \<Rightarrow> tensor \<Rightarrow> 'w trainer \<Rightarrow> tensor \<times> 'w trainer" where
  "call_model env r x s =
     (forward env r (models s r) x,
      s\<lparr>calls := calls s @ [Forward_pass r (training (models s r))]\<rparr>)"

text \<open>
  Modelled from the spec: \<^verbatim>\<open>SuperTrainer.eval(role, input)\<close>, which the file calls
  through \<^verbatim>\<open>eval_generator\<close> and whose code is missing. The spec: it "runs the named
  role's model in inference mode (no gradient tracking, no parameter update) on the
  given input and returns the raw prediction; must not mutate model mode persistently
  -- any eval-only mode switch is reverted before returning".
\<close>

definition eval :: "'w collaborators \<Rightarrow> role \<Rightarrow> tensor \<Rightarrow> 'w trainer \<Rightarrow> tensor \<times> 'w trainer" where
  "eval env r x s =
     (let was_training = training (models s r);
          s1 = set_eval r s;
          (out, s2) = call_model env r x s1
      in (out, if was_training then set_train r s2 else s2))"

definition eval_generator :: "'w collaborators \<Rightarrow> tensor \<Rightarrow> 'w trainer \<Rightarrow> tensor \<times> 'w trainer" where
  "eval_generator env in_dat s = eval env G in_dat s"

subsection \<open>The input functions\<close>

text \<open>
  \<^verbatim>\<open>n_batch / 2\<close> is the true division of two Python integers: it returns the
  double nearest to the quotient, a tie going to the even mantissa, and raises
  \<^verbatim>\<open>OverflowError\<close> when that double would not be finite. Dividing by 2 only moves
  the exponent, so the quotient is exact when the integer has at most 53 bits;
  an integer of more bits is first rounded to its 53 leading bits. \<open>bit_length\<close> is
  Python's \<^verbatim>\<open>int.bit_length\<close>.
\<close>

fun bit_length :: "nat \<Rightarrow> nat" where
  "bit_length n = (if n = 0 then 0 else Suc (bit_length (n div 2)))"

declare bit_length.simps [simp del]

definition round_half_even :: "nat \<Rightarrow> nat \<Rightarrow> nat" where
  "round_half_even a k =
     (let q = a div 2 ^ k; r = a mod 2 ^ k
      in if 2 * r > 2 ^ k \<or> (2 * r = 2 ^ k \<and> odd q) then q + 1 else q)"

definition true_div_2 :: "int \<Rightarrow> error + real" where
  "true_div_2 n =
     (let a = nat \<bar>n\<bar>
      in if bit_length a \<le> 53 then Inr (real_of_int n / 2)
         else (let shift = bit_length a - 53;
                   rounded = round_half_even a shift * 2 ^ shift
               in if rounded \<ge> 2 ^ 1025 then Inl OverflowError
                  else Inr (real_of_int (sgn n * int rounded) / 2)))"

text \<open>
  \<^verbatim>\<open>math.ceil(n_batch / 2)\<close> and \<^verbatim>\<open>int(n_batch / 2)\<close>: the ceiling of that double,
  and the double truncated towards zero.
\<close>

definition ceil_half :: "int \<Rightarrow> error + int" where
  "ceil_half n = (case true_div_2 n of Inl e \<Rightarrow> Inl e | Inr x \<Rightarrow> Inr \<lceil>x\<rceil>)"

definition int_half :: "int \<Rightarrow> error + int" where
  "int_half n =
     (case true_div_2 n of Inl e \<Rightarrow> Inl e | Inr x \<Rightarrow> Inr (if 0 \<le> x then \<lfloor>x\<rfloor> else \<lceil>x\<rceil>))"

text \<open>\<^verbatim>\<open>[[v] for n in range(k)]\<close>; an empty range for a negative \<open>k\<close>.\<close>

definition labels :: "real \<Rightarrow> int \<Rightarrow> tensor" where
  "labels v k = replicate (nat k) [v]"

text \<open>
  \<^verbatim>\<open>discriminator_input\<close> evaluates \<^verbatim>\<open>math.ceil(n_batch / 2)\<close> first, on line
  132, so a division that overflows raises before anything else is done; the later
  evaluations of the same two expressions, on lines 136 and 137, give the same values.
\<close>

definition discriminator_input ::
  "'w collaborators \<Rightarrow> int \<Rightarrow> 'w trainer \<Rightarrow> error + (tensor \<times> tensor) \<times> 'w trainer" where
  "discriminator_input env n_batch s =
     (case ceil_half n_batch of
        Inl e \<Rightarrow> Inl e
      | Inr n_fake \<Rightarrow>
          (case int_half n_batch of
             Inl e \<Rightarrow> Inl e
           | Inr n_real \<Rightarrow>
               (let (gen_in, w1) = latent_space env n_fake (Some (device s)) (world s);
                    s1 = set_eval G (s\<lparr>world := w1\<rparr>);
                    (gen_out, s2) = call_model env G gen_in s1;
                    s3 = set_train G s2;
                    (from_data, w2) = dataset env n_real (Some (device s3)) (world s3);
                    dis_in = gen_out @ from_data;
                    y = labels 0 n_fake @ labels 1 n_real
                in Inr ((dis_in, y), s3\<lparr>world := w2\<rparr>))))"

definition generator_input ::
  "'w collaborators \<Rightarrow> int \<Rightarrow> 'w trainer \<Rightarrow> (tensor \<times> tensor) \<times> 'w trainer" where
  "generator_input env n_batch s =
     (let (gen_in, w1) = latent_space env n_batch (Some (device s)) (world s);
          (gen_out, s1) = call_model env G gen_in (s\<lparr>world := w1\<rparr>);
          y = labels 1 n_batch
      in ((gen_out, y), s1))"

definition in_functions ::
  "'w collaborators \<Rightarrow> role \<Rightarrow> int \<Rightarrow> 'w trainer
     \<Rightarrow> error + (tensor \<times> tensor) \<times> 'w trainer" where
  "in_functions env tt n_batch s =
     (case tt of
        G \<Rightarrow> Inr (generator_input env n_batch s)
      | D \<Rightarrow> discriminator_input env n_batch s)"

subsection \<open>One epoch of \<^verbatim>\<open>train\<close>\<close>

text \<open>Lines 50 to 53: the prediction of the discriminator on the batch.\<close>

definition predict ::
  "'w collaborators \<Rightarrow> role \<Rightarrow> tensor \<Rightarrow> 'w trainer \<Rightarrow> tensor \<times> 'w trainer" where
  "predict env tt dis_in s =
     (let s1 = (if tt = G then set_eval D s else s);
          (mod_pred, s2) = call_model env D dis_in s1
      in (mod_pred, set_train D s2))"

text \<open>Lines 57 and 58: logging for the visualizers.\<close>

definition log_loss :: "role \<Rightarrow> real \<Rightarrow> 'w trainer \<Rightarrow> 'w trainer" where
  "log_loss tt mod_loss s =
     s\<lparr>losses := (losses s)(tt := losses s tt @ [mod_loss]),
       epochs_trained := (epochs_trained s)(tt := epochs_trained s tt + 1)\<rparr>"

text \<open>
  Lines 62 to 76: the four counters and the loop over \<^verbatim>\<open>range(len(y_flat))\<close>.
  The loop reads \<^verbatim>\<open>mod_pred_flat[i]\<close> at every index of \<^verbatim>\<open>y_flat\<close>, so it raises
  when the prediction has fewer elements than the labels.
\<close>

record counts =
  fP :: nat
  fN :: nat
  tP :: nat
  tN :: nat

definition no_counts :: counts where
  "no_counts = \<lparr>fP = 0, fN = 0, tP = 0, tN = 0\<rparr>"

definition count_one :: "real \<Rightarrow> real \<Rightarrow> real \<Rightarrow> counts \<Rightarrow> counts" where
  "count_one thresh y_i pred_i c =
     (if y_i = 0 then
        (if pred_i > thresh then c\<lparr>fP := fP c + 1\<rparr> else c\<lparr>tN := tN c + 1\<rparr>)
      else
        (if pred_i > thresh then c\<lparr>tP := tP c + 1\<rparr> else c\<lparr>fN := fN c + 1\<rparr>))"

fun count_loop :: "real \<Rightarrow> real list \<Rightarrow> real list \<Rightarrow> counts \<Rightarrow> error + counts" where
  "count_loop thresh [] mod_pred_flat c = Inr c"
| "count_loop thresh (y_i # y_flat) [] c = Inl IndexError"
| "count_loop thresh (y_i # y_flat) (pred_i # mod_pred_flat) c =
     count_loop thresh y_flat mod_pred_flat (count_one thresh y_i pred_i c)"

text \<open>Lines 78 to 83: each rate is appended under the guard on its denominator.\<close>

definition append_rates :: "counts \<Rightarrow> 'w trainer \<Rightarrow> 'w trainer" where
  "append_rates c s =
     (let s1 = (if fP c + tN c > 0
                then s\<lparr>d_fpr := d_fpr s @ [real (fP c) / real (fP c + tN c)]\<rparr> else s);
          s2 = (if tP c + fP c > 0
                then s1\<lparr>d_precision := d_precision s1 @ [real (tP c) / real (tP c + fP c)]\<rparr>
                else s1);
          s3 = (if tP c + fN c > 0
                then s2\<lparr>d_recall := d_recall s2 @ [real (tP c) / real (tP c + fN c)]\<rparr>
                else s2)
      in s3)"

definition rates :: "tensor \<Rightarrow> tensor \<Rightarrow> 'w trainer \<Rightarrow> error + 'w trainer" where
  "rates y mod_pred s =
     (case count_loop (d_thresh s) (concat y) (concat mod_pred) no_counts of
        Inl e \<Rightarrow> Inl e
      | Inr c \<Rightarrow> Inr (append_rates c s))"

text \<open>Lines 86 to 92: the optimizer of the chosen role, then the clamp of the critic.\<close>

definition clamp :: "real \<Rightarrow> real \<Rightarrow> real \<Rightarrow> real" where
  "clamp lo hi x = (if x < lo then lo else if x > hi then hi else x)"

definition clamp_parameters :: "'w trainer \<Rightarrow> 'w trainer" where
  "clamp_parameters s =
     s\<lparr>models := (models s)(D := (models s D)
          \<lparr>parameters := map (map (clamp (- 0.01) 0.01)) (parameters (models s D))\<rparr>),
       calls := calls s @ [Clamp D]\<rparr>"

definition update ::
  "'w collaborators \<Rightarrow> role \<Rightarrow> tensor \<Rightarrow> tensor \<Rightarrow> 'w trainer \<Rightarrow> 'w trainer" where
  "update env tt dis_in y s =
     (let (ps, w1) = optimizer_step env tt dis_in y s;
          s1 = s\<lparr>models := (models s)(tt := (models s tt)\<lparr>parameters := ps\<rparr>),
                 world := w1,
                 calls := calls s @ [Zero_grad tt, Backward tt, Opt_step tt]\<rparr>
      in if tt = D then clamp_parameters s1 else s1)"

text \<open>
  Lines 96 and 97. \<^verbatim>\<open>torch.mean\<close> of a tensor without elements is NaN, which is
  \<open>None\<close> here; the arguments are evaluated from left to right.
\<close>

definition torch_mean :: "real list \<Rightarrow> real option" where
  "torch_mean xs = (if xs = [] then None else Some (sum_list xs / real (length xs)))"

definition w_dist_mean :: "'w collaborators \<Rightarrow> 'w trainer \<Rightarrow> real option \<times> 'w trainer" where
  "w_dist_mean env s =
     (let (lat, w1) = latent_space env 256 None (world s);
          (gen_out, s1) = eval_generator env lat (s\<lparr>world := w1\<rparr>);
          (from_data, w2) = dataset env 256 None (world s1);
          w_dists = all_Wasserstein_dists env gen_out from_data
      in (torch_mean w_dists, s1\<lparr>world := w2\<rparr>))"

text \<open>
  The body of the loop in two parts. Lines 42 to 92: the choice of the role, its batch,
  the prediction, the bookkeeping and the update of the chosen model.
\<close>

definition train_update :: "'w collaborators \<Rightarrow> int \<Rightarrow> 'w trainer \<Rightarrow> error + 'w trainer" where
  "train_update env n_batch s =
     (let tt = totrain_next env s
      in case in_functions env tt n_batch s of
           Inl e \<Rightarrow> Inl e
         | Inr ((dis_in, y), s1) \<Rightarrow>
             (let (mod_pred, s2) = predict env tt dis_in s1;
                  mod_loss = loss_functions env tt mod_pred y;
                  s3 = log_loss tt mod_loss s2
              in case rates y mod_pred s3 of
                   Inl e \<Rightarrow> Inl e
                 | Inr s4 \<Rightarrow> Inr (update env tt dis_in y s4)))"

text \<open>Lines 96 to 98 after it, on the trainer and the local \<^verbatim>\<open>all_dists\<close>.\<close>

definition train_step ::
  "'w collaborators \<Rightarrow> int \<Rightarrow> 'w trainer \<times> real option list
     \<Rightarrow> error + 'w trainer \<times> real option list" where
  "train_step env n_batch st =
     (let (s, all_dists) = st
      in case train_update env n_batch s of
           Inl e \<Rightarrow> Inl e
         | Inr s5 \<Rightarrow>
             (let (w_dist, s6) = w_dist_mean env s5
              in Inr (s6, all_dists @ [w_dist])))"

text \<open>
  \<^verbatim>\<open>for epoch in range(n_epochs)\<close>, and \<^verbatim>\<open>train\<close> itself, which starts from an
  empty \<^verbatim>\<open>all_dists\<close> and hands the sequence to the plot.
\<close>

fun train_loop ::
  "'w collaborators \<Rightarrow> nat \<Rightarrow> int \<Rightarrow> 'w trainer \<times> real option list
     \<Rightarrow> error + 'w trainer \<times> real option list" where
  "train_loop env 0 n_batch st = Inr st"
| "train_loop env (Suc k) n_batch st =
     (case train_step env n_batch st of
        Inl e \<Rightarrow> Inl e
      | Inr st' \<Rightarrow> train_loop env k n_batch st')"

definition train ::
  "'w collaborators \<Rightarrow> int \<Rightarrow> int \<Rightarrow> 'w trainer \<Rightarrow> error + 'w trainer \<times> real option list" where
  "train env n_epochs n_batch s = train_loop env (nat n_epochs) n_batch (s, [])"

subsection \<open>Names for the locals of an epoch\<close>

text \<open>
  The values that the locals \<^verbatim>\<open>(dis_in, y)\<close> and \<^verbatim>\<open>mod_pred\<close> take in the epoch
  that starts in state \<open>s\<close>, when the input function of that epoch returns. They
  are used for epochs that return only.
\<close>

definition batch :: "'w collaborators \<Rightarrow> int \<Rightarrow> 'w trainer \<Rightarrow> tensor \<times> tensor" where
  "batch env n_batch s = fst (projr (in_functions env (totrain_next env s) n_batch s))"

definition prediction :: "'w collaborators \<Rightarrow> int \<Rightarrow> 'w trainer \<Rightarrow> tensor" where
  "prediction env n_batch s =
     fst (predict env (totrain_next env s) (fst (batch env n_batch s))
            (snd (projr (in_functions env (totrain_next env s) n_batch s))))"

text \<open>
  A run of epochs from the state \<open>s\<close> to the state \<open>t\<close>, told by the states
  \<open>us\<close> that the trainer is in after lines 42 to 92 of each epoch: every epoch
  updates the state the epoch before it ended in, and ends in the state that the
  monitoring of lines 96 to 98 leaves.
\<close>

fun run_through ::
  "'w collaborators \<Rightarrow> int \<Rightarrow> 'w trainer \<Rightarrow> 'w trainer list \<Rightarrow> 'w trainer \<Rightarrow> bool" where
  "run_through env n_batch s [] t \<longleftrightarrow> t = s"
| "run_through env n_batch s (u # us) t \<longleftrightarrow>
     train_update env n_batch s = Inr u \<and> run_through env n_batch (snd (w_dist_mean env u)) us t"

subsection \<open>What the collaborators are expected to do\<close>

text \<open>
  The docstring of the constructor: "Latent_space_function(n) is a function which
  returns an array of n points from the latent space", and the same for the dataset.
  A torch module maps a batch of n rows to n rows, and the critic gives one score for
  each row.
\<close>

definition returns_rows :: "(int \<Rightarrow> string option \<Rightarrow> 'w \<Rightarrow> tensor \<times> 'w) \<Rightarrow> bool" where
  "returns_rows sampler \<longleftrightarrow> (\<forall>n dev w. 0 \<le> n \<longrightarrow> length (fst (sampler n dev w)) = nat n)"

definition keeps_rows :: "'w collaborators \<Rightarrow> role \<Rightarrow> bool" where
  "keeps_rows env r \<longleftrightarrow> (\<forall>m x. length (forward env r m x) = length x)"

definition one_score_per_row :: "'w collaborators \<Rightarrow> bool" where
  "one_score_per_row env \<longleftrightarrow> (\<forall>m x. \<forall>row \<in> set (forward env D m x). length row = 1)"

definition contracts :: "'w collaborators \<Rightarrow> bool" where
  "contracts env \<longleftrightarrow>
     returns_rows (latent_space env) \<and> returns_rows (dataset env) \<and>
     keeps_rows env G \<and> keeps_rows env D \<and> one_score_per_row env"

subsection \<open>A small trainer to run\<close>

text \<open>
  Collaborators for concrete runs: the world is a counter of the draws made so far,
  the latent sampler returns rows that hold the number of the draw, the dataset rows
  that hold 2; the generator is the identity, the critic sums each row; the optimizer always
  proposes the parameter values 5, -3 and 0.005. The scheduling policy is left open.
\<close>

definition example_env :: "(nat trainer \<Rightarrow> role) \<Rightarrow> nat collaborators" where
  "example_env policy =
     \<lparr>totrain_next = policy,
      latent_space = (\<lambda>n dev w. (replicate (nat n) [real (Suc w)], Suc w)),
      dataset = (\<lambda>n dev w. (replicate (nat n) [2], Suc w)),
      forward = (\<lambda>r m x. case r of G \<Rightarrow> x | D \<Rightarrow> map (\<lambda>row. [sum_list row]) x),
      loss_functions = (\<lambda>r mod_pred y. 0),
      optimizer_step = (\<lambda>r dis_in y s. ([[5, - 3, 0.005]], world s)),
      all_Wasserstein_dists = (\<lambda>a b. [1, 3])\<rparr>"

definition alternate :: "nat trainer \<Rightarrow> role" where
  "alternate s = (if epochs_trained s D \<le> epochs_trained s G then D else G)"

definition example_trainer :: "bool \<Rightarrow> nat trainer" where
  "example_trainer generator_training =
     init \<lparr>training = generator_training, parameters = [[1]]\<rparr>
          \<lparr>training = True, parameters = [[2, 3]]\<rparr> ''cpu'' None 0"

section \<open>Properties\<close>

subsection \<open>The halves of a batch\<close>

lemma bit_length_le: "n < 2 ^ k \<Longrightarrow> bit_length n \<le> k"
proof (induction k arbitrary: n)
  case 0
  then show ?case by (simp add: bit_length.simps)
next
  case (Suc k)
  then have "n div 2 < 2 ^ k" by simp
  from Suc.IH [OF this] show ?case
    by (subst bit_length.simps) simp
qed

lemma bit_length_gt: "2 ^ k \<le> n \<Longrightarrow> k < bit_length n"
proof (induction k arbitrary: n)
  case 0
  then show ?case by (subst bit_length.simps) simp
next
  case (Suc k)
  then have "2 ^ k \<le> n div 2" by simp
  moreover have "0 < n"
    using Suc.prems by (cases "n = 0") simp_all
  ultimately show ?case
    using Suc.IH [of "n div 2"] by (subst bit_length.simps) simp
qed

lemma true_div_2_exact: "\<bar>n\<bar> < 2 ^ 53 \<Longrightarrow> true_div_2 n = Inr (real_of_int n / 2)"
proof -
  assume "\<bar>n\<bar> < 2 ^ 53"
  then have "nat \<bar>n\<bar> < 2 ^ 53" by (simp add: nat_less_iff)
  then have "bit_length (nat \<bar>n\<bar>) \<le> 53" by (rule bit_length_le)
  then show ?thesis by (simp add: true_div_2_def)
qed

lemma ceil_half_exact: "\<bar>n\<bar> < 2 ^ 53 \<Longrightarrow> ceil_half n = Inr ((n + 1) div 2)"
proof -
  assume "\<bar>n\<bar> < 2 ^ 53"
  moreover have "\<lceil>real_of_int n / 2\<rceil> = (n + 1) div 2" by linarith
  ultimately show ?thesis by (simp add: ceil_half_def true_div_2_exact)
qed

lemma int_half_exact: "0 \<le> n \<Longrightarrow> n < 2 ^ 53 \<Longrightarrow> int_half n = Inr (n div 2)"
proof -
  assume n: "0 \<le> n" "n < 2 ^ 53"
  have "\<lfloor>real_of_int n / 2\<rfloor> = n div 2" by linarith
  with n show ?thesis by (simp add: int_half_def true_div_2_exact)
qed

lemma true_div_2_54_bits:
  assumes "2 ^ 53 \<le> n" and "n < 2 ^ 54"
  shows "true_div_2 n = Inr (real (round_half_even (nat n) 1))"
proof -
  have "2 ^ 53 \<le> nat n" "nat n < 2 ^ 54"
    using assms by (simp_all add: le_nat_iff nat_less_iff)
  then have "53 < bit_length (nat n)" "bit_length (nat n) \<le> 54"
    by (simp_all add: bit_length_gt bit_length_le)
  then have b: "bit_length (nat n) = 54" by simp
  have "round_half_even (nat n) 1 \<le> nat n div 2 + 1"
    by (simp add: round_half_even_def Let_def)
  also have "\<dots> < 2 ^ 1024"
  proof -
    have "nat n div 2 + 1 < 2 ^ 54" using \<open>nat n < 2 ^ 54\<close> by simp
    also have "(2::nat) ^ 54 \<le> 2 ^ 1024" by (rule power_increasing) simp_all
    finally show ?thesis .
  qed
  finally have "round_half_even (nat n) 1 * 2 < 2 ^ 1025" by simp
  moreover have "0 < n" using assms(1) by (simp add: less_le_trans [OF _ assms(1)])
  ultimately show ?thesis
    using assms(1) by (simp add: true_div_2_def b Let_def)
qed

subsection \<open>What each part of an epoch does to each field of the trainer\<close>

lemmas module_calls = set_eval_def set_train_def call_model_def

lemma discriminator_input_returns:
  "\<not> isl (discriminator_input env n s) \<longleftrightarrow> \<not> isl (ceil_half n) \<and> \<not> isl (int_half n)"
  by (auto simp: discriminator_input_def split_def Let_def split: sum.splits)

lemma fst_discriminator_input:
  assumes "ceil_half n = Inr n_fake" and "int_half n = Inr n_real"
  shows "\<not> isl (discriminator_input env n s)"
    and "fst (projr (discriminator_input env n s)) =
     (forward env G ((models s G)\<lparr>training := False\<rparr>)
        (fst (latent_space env n_fake (Some (device s)) (world s)))
      @ fst (dataset env n_real (Some (device s))
               (snd (latent_space env n_fake (Some (device s)) (world s)))),
      labels 0 n_fake @ labels 1 n_real)"
  using assms by (simp_all add: discriminator_input_def module_calls split_def Let_def)

lemma discriminator_input_fields:
  assumes "\<not> isl (discriminator_input env n s)"
  shows
  "models (snd (projr (discriminator_input env n s))) =
     (models s)(G := (models s G)\<lparr>training := True\<rparr>)"
  "losses (snd (projr (discriminator_input env n s))) = losses s"
  "epochs_trained (snd (projr (discriminator_input env n s))) = epochs_trained s"
  "d_fpr (snd (projr (discriminator_input env n s))) = d_fpr s"
  "d_recall (snd (projr (discriminator_input env n s))) = d_recall s"
  "d_precision (snd (projr (discriminator_input env n s))) = d_precision s"
  "d_thresh (snd (projr (discriminator_input env n s))) = d_thresh s"
  "device (snd (projr (discriminator_input env n s))) = device s"
  "calls (snd (projr (discriminator_input env n s))) =
     calls s @ [Eval_mode G, Forward_pass G False, Train_mode G]"
  using assms
  by (auto simp: discriminator_input_def module_calls split_def Let_def split: sum.splits)

lemma generator_input_fields:
  "models (snd (generator_input env n s)) = models s"
  "losses (snd (generator_input env n s)) = losses s"
  "epochs_trained (snd (generator_input env n s)) = epochs_trained s"
  "d_fpr (snd (generator_input env n s)) = d_fpr s"
  "d_recall (snd (generator_input env n s)) = d_recall s"
  "d_precision (snd (generator_input env n s)) = d_precision s"
  "d_thresh (snd (generator_input env n s)) = d_thresh s"
  "device (snd (generator_input env n s)) = device s"
  "calls (snd (generator_input env n s)) = calls s @ [Forward_pass G (training (models s G))]"
  by (simp_all add: generator_input_def module_calls split_def Let_def)

lemma fst_generator_input:
  "fst (generator_input env n s) =
     (forward env G (models s G) (fst (latent_space env n (Some (device s)) (world s))),
      labels 1 n)"
  by (simp add: generator_input_def module_calls split_def Let_def)

lemma in_functions_role:
  "in_functions env G n s = Inr (generator_input env n s)"
  "in_functions env D n s = discriminator_input env n s"
  by (simp_all add: in_functions_def)

lemma in_functions_fields:
  assumes "\<not> isl (in_functions env tt n s)"
  shows
  "models (snd (projr (in_functions env tt n s))) =
     (if tt = D then (models s)(G := (models s G)\<lparr>training := True\<rparr>) else models s)"
  "losses (snd (projr (in_functions env tt n s))) = losses s"
  "epochs_trained (snd (projr (in_functions env tt n s))) = epochs_trained s"
  "d_fpr (snd (projr (in_functions env tt n s))) = d_fpr s"
  "d_recall (snd (projr (in_functions env tt n s))) = d_recall s"
  "d_precision (snd (projr (in_functions env tt n s))) = d_precision s"
  "d_thresh (snd (projr (in_functions env tt n s))) = d_thresh s"
  "device (snd (projr (in_functions env tt n s))) = device s"
  "calls (snd (projr (in_functions env tt n s))) =
     calls s @ (if tt = D then [Eval_mode G, Forward_pass G False, Train_mode G]
                else [Forward_pass G (training (models s G))])"
  using assms
  by (cases tt; simp add: in_functions_role discriminator_input_fields generator_input_fields)+

lemma predict_fields:
  "models (snd (predict env tt x s)) = (models s)(D := (models s D)\<lparr>training := True\<rparr>)"
  "losses (snd (predict env tt x s)) = losses s"
  "epochs_trained (snd (predict env tt x s)) = epochs_trained s"
  "d_fpr (snd (predict env tt x s)) = d_fpr s"
  "d_recall (snd (predict env tt x s)) = d_recall s"
  "d_precision (snd (predict env tt x s)) = d_precision s"
  "d_thresh (snd (predict env tt x s)) = d_thresh s"
  "device (snd (predict env tt x s)) = device s"
  "calls (snd (predict env tt x s)) =
     calls s @ (if tt = G then [Eval_mode D, Forward_pass D False, Train_mode D]
                else [Forward_pass D (training (models s D)), Train_mode D])"
  by (simp_all add: predict_def module_calls split_def Let_def)

lemma log_loss_fields:
  "models (log_loss tt l s) = models s"
  "losses (log_loss tt l s) = (losses s)(tt := losses s tt @ [l])"
  "epochs_trained (log_loss tt l s) = (epochs_trained s)(tt := epochs_trained s tt + 1)"
  "d_fpr (log_loss tt l s) = d_fpr s"
  "d_recall (log_loss tt l s) = d_recall s"
  "d_precision (log_loss tt l s) = d_precision s"
  "d_thresh (log_loss tt l s) = d_thresh s"
  "device (log_loss tt l s) = device s"
  "calls (log_loss tt l s) = calls s"
  by (simp_all add: log_loss_def)

lemma append_rates_fields:
  "models (append_rates c s) = models s"
  "losses (append_rates c s) = losses s"
  "epochs_trained (append_rates c s) = epochs_trained s"
  "d_fpr (append_rates c s) =
     (if fP c + tN c > 0 then d_fpr s @ [real (fP c) / real (fP c + tN c)] else d_fpr s)"
  "d_precision (append_rates c s) =
     (if tP c + fP c > 0 then d_precision s @ [real (tP c) / real (tP c + fP c)]
      else d_precision s)"
  "d_recall (append_rates c s) =
     (if tP c + fN c > 0 then d_recall s @ [real (tP c) / real (tP c + fN c)] else d_recall s)"
  "d_thresh (append_rates c s) = d_thresh s"
  "device (append_rates c s) = device s"
  "calls (append_rates c s) = calls s"
  by (simp_all add: append_rates_def Let_def)

lemma update_fields:
  "models (update env tt x y s) =
     (models s)(tt := (models s tt)\<lparr>parameters :=
        (if tt = D then map (map (clamp (- 0.01) 0.01)) (fst (optimizer_step env tt x y s))
         else fst (optimizer_step env tt x y s))\<rparr>)"
  "losses (update env tt x y s) = losses s"
  "epochs_trained (update env tt x y s) = epochs_trained s"
  "d_fpr (update env tt x y s) = d_fpr s"
  "d_recall (update env tt x y s) = d_recall s"
  "d_precision (update env tt x y s) = d_precision s"
  "d_thresh (update env tt x y s) = d_thresh s"
  "device (update env tt x y s) = device s"
  "calls (update env tt x y s) =
     calls s @ [Zero_grad tt, Backward tt, Opt_step tt] @ (if tt = D then [Clamp D] else [])"
  by (simp_all add: update_def clamp_parameters_def split_def Let_def)

lemma w_dist_mean_fields:
  "models (snd (w_dist_mean env s)) = models s"
  "losses (snd (w_dist_mean env s)) = losses s"
  "epochs_trained (snd (w_dist_mean env s)) = epochs_trained s"
  "d_fpr (snd (w_dist_mean env s)) = d_fpr s"
  "d_recall (snd (w_dist_mean env s)) = d_recall s"
  "d_precision (snd (w_dist_mean env s)) = d_precision s"
  "d_thresh (snd (w_dist_mean env s)) = d_thresh s"
  "device (snd (w_dist_mean env s)) = device s"
  by (auto simp add: w_dist_mean_def eval_generator_def eval_def module_calls split_def Let_def
        fun_eq_iff)

lemmas fields = in_functions_fields predict_fields log_loss_fields append_rates_fields
  update_fields w_dist_mean_fields

subsection \<open>The counting loop\<close>

lemma count_loop_returns:
  "(\<exists>c'. count_loop th ys ps c = Inr c') \<longleftrightarrow> length ys \<le> length ps"
  by (induction th ys ps c rule: count_loop.induct) simp_all

lemma count_loop_counts:
  "count_loop th ys ps c = Inr c' \<Longrightarrow>
     fP c' = fP c + length (filter (\<lambda>(y, p). y = 0 \<and> p > th) (zip ys ps)) \<and>
     tN c' = tN c + length (filter (\<lambda>(y, p). y = 0 \<and> \<not> p > th) (zip ys ps)) \<and>
     tP c' = tP c + length (filter (\<lambda>(y, p). y \<noteq> 0 \<and> p > th) (zip ys ps)) \<and>
     fN c' = fN c + length (filter (\<lambda>(y, p). y \<noteq> 0 \<and> \<not> p > th) (zip ys ps))"
  by (induction th ys ps c rule: count_loop.induct) (auto simp: count_one_def)

subsection \<open>An epoch that returns\<close>

lemma train_update_unfold:
  assumes "\<not> isl (in_functions env (totrain_next env s) n_batch s)"
  shows "train_update env n_batch s =
    (case count_loop (d_thresh s) (concat (snd (batch env n_batch s)))
            (concat (prediction env n_batch s)) no_counts of
       Inl e \<Rightarrow> Inl e
     | Inr c \<Rightarrow>
         Inr (update env (totrain_next env s) (fst (batch env n_batch s))
               (snd (batch env n_batch s))
               (append_rates c
                 (log_loss (totrain_next env s)
                   (loss_functions env (totrain_next env s) (prediction env n_batch s)
                      (snd (batch env n_batch s)))
                   (snd (predict env (totrain_next env s) (fst (batch env n_batch s))
                          (snd (projr (in_functions env (totrain_next env s) n_batch s)))))))))"
proof -
  from assms obtain r where r: "in_functions env (totrain_next env s) n_batch s = Inr r"
    by (cases "in_functions env (totrain_next env s) n_batch s") simp_all
  have t: "d_thresh (snd r) = d_thresh s"
    using in_functions_fields(7) [OF assms] by (simp add: r)
  show ?thesis
    by (simp add: train_update_def batch_def prediction_def rates_def split_def Let_def r t
        predict_fields log_loss_fields split: sum.splits)
qed

lemma train_update_Inr:
  assumes "train_update env n_batch s = Inr s'"
  obtains c where
    "\<not> isl (in_functions env (totrain_next env s) n_batch s)"
    "count_loop (d_thresh s) (concat (snd (batch env n_batch s)))
       (concat (prediction env n_batch s)) no_counts = Inr c"
    "s' = update env (totrain_next env s) (fst (batch env n_batch s)) (snd (batch env n_batch s))
            (append_rates c
              (log_loss (totrain_next env s)
                (loss_functions env (totrain_next env s) (prediction env n_batch s)
                   (snd (batch env n_batch s)))
                (snd (predict env (totrain_next env s) (fst (batch env n_batch s))
                       (snd (projr (in_functions env (totrain_next env s) n_batch s)))))))"
proof -
  have n: "\<not> isl (in_functions env (totrain_next env s) n_batch s)"
    using assms by (auto simp: train_update_def Let_def split: sum.splits)
  from assms train_update_unfold [OF n] that [OF n] show thesis
    by (auto split: sum.splits)
qed

lemma train_step_Inr:
  assumes "train_step env n_batch (s, all_dists) = Inr (s', all_dists')"
  obtains s5 where "train_update env n_batch s = Inr s5"
    "s' = snd (w_dist_mean env s5)" "all_dists' = all_dists @ [fst (w_dist_mean env s5)]"
  using assms by (auto simp: train_step_def split_def Let_def split: sum.splits)

subsection \<open>With collaborators that keep their contracts, training returns\<close>

lemma concat_singletons: "\<forall>row \<in> set xs. length row = 1 \<Longrightarrow> length (concat xs) = length xs"
  by (induction xs) simp_all

lemma length_labels: "length (labels v k) = nat k" "length (concat (labels v k)) = nat k"
  by (simp_all add: labels_def concat_singletons)

lemma in_functions_returns:
  assumes "0 \<le> n_batch" and "n_batch < 2 ^ 53"
  shows "\<not> isl (in_functions env tt n_batch s)"
proof (cases tt)
  case G
  then show ?thesis by (simp add: in_functions_role)
next
  case D
  have "\<bar>n_batch\<bar> < 2 ^ 53" using assms by simp
  then show ?thesis
    using assms
    by (simp add: D in_functions_role discriminator_input_returns ceil_half_exact
        int_half_exact)
qed

lemma batch_role:
  "totrain_next env s = G \<Longrightarrow> batch env n s = fst (generator_input env n s)"
  "totrain_next env s = D \<Longrightarrow> batch env n s = fst (projr (discriminator_input env n s))"
  by (simp_all add: batch_def in_functions_role)

lemma batch_rows:
  assumes "contracts env" and "0 \<le> n_batch" and "n_batch < 2 ^ 53"
  shows "length (fst (batch env n_batch s)) = nat n_batch"
    and "length (concat (snd (batch env n_batch s))) = nat n_batch"
proof -
  have a: "\<bar>n_batch\<bar> < 2 ^ 53" using assms(2,3) by simp
  note h = ceil_half_exact [OF a] int_half_exact [OF assms(2,3)]
  note d = fst_discriminator_input(2) [OF h, of env s]
  have c: "0 \<le> (n_batch + 1) div 2" "0 \<le> n_batch div 2"
    "nat ((n_batch + 1) div 2) + nat (n_batch div 2) = nat n_batch"
    using assms(2) by linarith+
  show "length (fst (batch env n_batch s)) = nat n_batch"
    using assms(1,2) c
    by (cases "totrain_next env s")
       (simp_all add: batch_role fst_generator_input d contracts_def returns_rows_def
          keeps_rows_def)
  show "length (concat (snd (batch env n_batch s))) = nat n_batch"
    using c
    by (cases "totrain_next env s")
       (simp_all add: batch_role fst_generator_input d length_labels)
qed

lemma prediction_scores:
  assumes "contracts env"
  shows "length (concat (prediction env n_batch s)) = length (fst (batch env n_batch s))"
proof -
  have "\<forall>row \<in> set (prediction env n_batch s). length row = 1"
    using assms
    by (simp add: prediction_def predict_def call_model_def split_def Let_def contracts_def
        one_score_per_row_def)
  then have "length (concat (prediction env n_batch s)) = length (prediction env n_batch s)"
    by (rule concat_singletons)
  also have "\<dots> = length (fst (batch env n_batch s))"
    using assms
    by (simp add: prediction_def predict_def call_model_def split_def Let_def contracts_def
        keeps_rows_def)
  finally show ?thesis .
qed

lemma train_update_returns:
  assumes "contracts env" and "0 \<le> n_batch" and "n_batch < 2 ^ 53"
  shows "\<exists>s'. train_update env n_batch s = Inr s'"
proof -
  have "length (concat (snd (batch env n_batch s))) \<le> length (concat (prediction env n_batch s))"
    by (simp add: prediction_scores [OF assms(1)] batch_rows [OF assms])
  then obtain c where
    "count_loop (d_thresh s) (concat (snd (batch env n_batch s)))
       (concat (prediction env n_batch s)) no_counts = Inr c"
    using count_loop_returns by blast
  then show ?thesis
    by (simp add: train_update_unfold [OF in_functions_returns [OF assms(2,3)]])
qed

lemma train_step_returns:
  assumes "contracts env" and "0 \<le> n_batch" and "n_batch < 2 ^ 53"
  shows "\<exists>st'. train_step env n_batch st = Inr st'"
  using train_update_returns [OF assms, of "fst st"]
  by (auto simp: train_step_def split_def Let_def)

lemma train_loop_returns:
  assumes "contracts env" and "0 \<le> n_batch" and "n_batch < 2 ^ 53"
  shows "\<exists>st'. train_loop env k n_batch st = Inr st'"
proof (induction k arbitrary: st)
  case 0
  show ?case by simp
next
  case (Suc k)
  from train_step_returns [OF assms] obtain st1 where "train_step env n_batch st = Inr st1" ..
  with Suc show ?case by simp
qed

lemma train_returns:
  assumes "contracts env" and "0 \<le> n_batch" and "n_batch < 2 ^ 53"
  shows "\<exists>st'. train env n_epochs n_batch s = Inr st'"
  unfolding train_def by (rule train_loop_returns [OF assms])

lemma example_contracts: "contracts (example_env policy)"
  by (auto simp: contracts_def returns_rows_def keeps_rows_def one_score_per_row_def
      example_env_def split: role.splits)

lemma projr_Inr: "x = Inr y \<Longrightarrow> x = Inr (fst (projr x), snd (projr x))"
  by simp

lemma projr_Inr1: "x = Inr y \<Longrightarrow> x = Inr (projr x)"
  by simp

subsection \<open>The clamp of the critic\<close>

lemma clamp_range: "- 0.01 \<le> clamp (- 0.01) 0.01 x \<and> clamp (- 0.01) 0.01 x \<le> 0.01"
  by (simp add: clamp_def)

lemma train_step_parameters_D:
  assumes "train_step env n_batch (s, all_dists) = Inr (s', all_dists')"
    and "totrain_next env s = D"
  shows "\<exists>x y u. parameters (models s' D) =
           map (map (clamp (- 0.01) 0.01)) (fst (optimizer_step env D x y u))"
  using assms by (elim train_step_Inr train_update_Inr) (simp add: fields, blast)

text \<open>
  Claim C1. In an epoch in which the policy chose the Discriminator, the clamp follows
  the optimizer step: when the epoch is over, every value of every parameter tensor of
  the discriminator lies between -0.01 and 0.01, whatever the optimizer proposed.
\<close>

theorem critic_step_clamps:
  assumes "train_step env n_batch (s, all_dists) = Inr (s', all_dists')"
    and "totrain_next env s = D"
  shows "\<forall>p \<in> set (parameters (models s' D)). \<forall>x \<in> set p. - 0.01 \<le> x \<and> x \<le> 0.01"
proof -
  from assms(1) obtain s5 where u: "train_update env n_batch s = Inr s5"
    and s': "s' = snd (w_dist_mean env s5)"
    by (rule train_step_Inr)
  from u assms(2) obtain ps
    where "parameters (models s5 D) = map (map (clamp (- 0.01) 0.01)) ps"
    by (auto elim!: train_update_Inr simp: fields)
  then have "parameters (models s' D) = map (map (clamp (- 0.01) 0.01)) ps"
    by (simp add: s' w_dist_mean_fields)
  then show ?thesis
    using clamp_range by auto
qed

theorem critic_step_clamps_witness:
  "\<not> isl (train_step (example_env (\<lambda>s. D)) 2 (example_trainer True, [])) \<and>
   totrain_next (example_env (\<lambda>s. D)) (example_trainer True) = D \<and>
   parameters (models (fst (projr (train_step (example_env (\<lambda>s. D)) 2 (example_trainer True, [])))) D)
     = [[0.01, - 0.01, 0.005]] \<and>
   - 0.01 \<le> hd (hd (parameters
       (models (fst (projr (train_step (example_env (\<lambda>s. D)) 2 (example_trainer True, [])))) D))) \<and>
   hd (hd (parameters
       (models (fst (projr (train_step (example_env (\<lambda>s. D)) 2 (example_trainer True, [])))) D)))
     \<le> 0.01"
proof -
  let ?r = "train_step (example_env (\<lambda>s. D)) 2 (example_trainer True, [])"
  from train_step_returns [OF example_contracts, of 2 "\<lambda>s. D" "(example_trainer True, [])"]
  obtain st' where r: "?r = Inr st'" by auto
  then have e: "?r = Inr (fst (projr ?r), snd (projr ?r))" by simp
  have d: "totrain_next (example_env (\<lambda>s. D)) (example_trainer True) = D"
    by (simp add: example_env_def)
  have o: "fst (optimizer_step (example_env (\<lambda>s. D)) D x y u) = [[5, - 3, 0.005]]" for x y u
    by (simp add: example_env_def)
  from train_step_parameters_D [OF e d]
  have p: "parameters (models (fst (projr ?r)) D) = [[0.01, - 0.01, 0.005]]"
    by (auto simp: o clamp_def)
  have "hd (hd (parameters (models (fst (projr ?r)) D))) \<in> set (hd (parameters (models (fst (projr ?r)) D)))"
    and "hd (parameters (models (fst (projr ?r)) D)) \<in> set (parameters (models (fst (projr ?r)) D))"
    by (simp_all add: p)
  with critic_step_clamps [OF e d]
  have "- 0.01 \<le> hd (hd (parameters (models (fst (projr ?r)) D))) \<and>
        hd (hd (parameters (models (fst (projr ?r)) D))) \<le> 0.01"
    by blast
  with r p d show ?thesis by simp
qed

subsection \<open>Losses and counters\<close>

lemma train_step_losses:
  assumes "train_step env n_batch (s, all_dists) = Inr (s', all_dists')"
  shows "losses s' = (losses s)(totrain_next env s := losses s (totrain_next env s) @
           [loss_functions env (totrain_next env s) (prediction env n_batch s)
              (snd (batch env n_batch s))])"
    and "epochs_trained s' =
           (epochs_trained s)(totrain_next env s := epochs_trained s (totrain_next env s) + 1)"
  using assms by (auto elim!: train_step_Inr train_update_Inr simp: fields)

lemma train_step_totals:
  assumes "train_step env n_batch (s, all_dists) = Inr (s', all_dists')"
  shows "length (losses s' G) + length (losses s' D) =
           Suc (length (losses s G) + length (losses s D))"
    and "epochs_trained s' G + epochs_trained s' D = Suc (epochs_trained s G + epochs_trained s D)"
    and "length all_dists' = Suc (length all_dists)"
proof -
  show "length (losses s' G) + length (losses s' D) =
           Suc (length (losses s G) + length (losses s D))"
    by (cases "totrain_next env s") (simp_all add: train_step_losses(1) [OF assms])
  show "epochs_trained s' G + epochs_trained s' D = Suc (epochs_trained s G + epochs_trained s D)"
    by (cases "totrain_next env s") (simp_all add: train_step_losses(2) [OF assms])
  show "length all_dists' = Suc (length all_dists)"
    using assms by (auto elim!: train_step_Inr)
qed

lemma train_loop_totals:
  "train_loop env k n_batch (s, all_dists) = Inr (s', all_dists') \<Longrightarrow>
     length (losses s' G) + length (losses s' D) = length (losses s G) + length (losses s D) + k \<and>
     epochs_trained s' G + epochs_trained s' D = epochs_trained s G + epochs_trained s D + k \<and>
     length all_dists' = length all_dists + k"
proof (induction k arbitrary: s all_dists)
  case 0
  then show ?case by simp
next
  case (Suc k)
  from Suc.prems obtain s1 d1 where
    step: "train_step env n_batch (s, all_dists) = Inr (s1, d1)" and
    rest: "train_loop env k n_batch (s1, d1) = Inr (s', all_dists')"
    by (auto split: sum.splits)
  from Suc.IH [OF rest] train_step_totals [OF step] show ?case by simp
qed

text \<open>
  Claim C2. An epoch that returns has appended one loss to the sequence of the role
  the policy chose, has left the other sequence as it was, and has counted one more
  epoch for the chosen role only. So a run of \<open>n_epochs\<close> epochs adds \<open>n_epochs\<close>
  to the sum of the lengths of the two loss sequences, and to the sum of the two
  counters; the constructor leaves both sequences empty, and then the sum is the
  number of epochs. The policy is any function of the trainer.
\<close>

theorem one_loss_per_step:
  "(train_step env n_batch (s, all_dists) = Inr (s', all_dists') \<longrightarrow>
      losses s' = (losses s)(totrain_next env s := losses s (totrain_next env s) @
        [loss_functions env (totrain_next env s) (prediction env n_batch s)
           (snd (batch env n_batch s))]) \<and>
      epochs_trained s' =
        (epochs_trained s)(totrain_next env s := epochs_trained s (totrain_next env s) + 1)) \<and>
   (train env n_epochs n_batch s = Inr (t, dists) \<longrightarrow>
      length (losses t G) + length (losses t D) =
        length (losses s G) + length (losses s D) + nat n_epochs \<and>
      epochs_trained t G + epochs_trained t D =
        epochs_trained s G + epochs_trained s D + nat n_epochs)"
  using train_step_losses [of env n_batch s all_dists s' all_dists']
    train_loop_totals [of env "nat n_epochs" n_batch s "[]" t dists]
  by (simp add: train_def)

theorem one_loss_per_step_witness:
  "\<not> isl (train_step (example_env alternate) 16 (example_trainer True, [])) \<and>
   losses (fst (projr (train_step (example_env alternate) 16 (example_trainer True, [])))) D = [0] \<and>
   losses (fst (projr (train_step (example_env alternate) 16 (example_trainer True, [])))) G = [] \<and>
   epochs_trained (fst (projr (train_step (example_env alternate) 16 (example_trainer True, [])))) D = 1 \<and>
   epochs_trained (fst (projr (train_step (example_env alternate) 16 (example_trainer True, [])))) G = 0 \<and>
   \<not> isl (train (example_env alternate) 7 16 (example_trainer True)) \<and>
   length (losses (fst (projr (train (example_env alternate) 7 16 (example_trainer True)))) G) +
   length (losses (fst (projr (train (example_env alternate) 7 16 (example_trainer True)))) D) = 7 \<and>
   epochs_trained (fst (projr (train (example_env alternate) 7 16 (example_trainer True)))) G +
   epochs_trained (fst (projr (train (example_env alternate) 7 16 (example_trainer True)))) D = 7"
proof -
  let ?E = "example_env alternate" and ?s = "example_trainer True"
  let ?r = "train_step ?E 16 (?s, [])" and ?t = "train ?E 7 16 ?s"
  from train_step_returns [OF example_contracts, of 16 alternate "(?s, [])"]
  obtain st' where r: "?r = Inr st'" by auto
  from train_returns [OF example_contracts, of 16 alternate 7 ?s]
  obtain st'' where t: "?t = Inr st''" by auto
  have tt: "totrain_next ?E ?s = D"
    by (simp add: example_env_def alternate_def example_trainer_def init_def)
  have l: "loss_functions ?E D = (\<lambda>p y. 0)"
    by (simp add: example_env_def)
  have i: "losses ?s = (\<lambda>r. [])" "epochs_trained ?s = (\<lambda>r. 0)"
    by (simp_all add: example_trainer_def init_def)
  from one_loss_per_step [of ?E 16 ?s "[]" "fst (projr ?r)" "snd (projr ?r)" 7
      "fst (projr ?t)" "snd (projr ?t)"] projr_Inr [OF r] projr_Inr [OF t]
  show ?thesis
    using r t by (simp add: tt l i)
qed


subsection \<open>The distance history\<close>

lemma w_dist_mean_calls:
  "calls (snd (w_dist_mean env s)) =
     calls s @ [Eval_mode G, Forward_pass G False] @
       (if training (models s G) then [Train_mode G] else [])"
  by (simp add: w_dist_mean_def eval_generator_def eval_def module_calls split_def Let_def)

lemma fst_w_dist_mean:
  "fst (w_dist_mean env u) =
     torch_mean (all_Wasserstein_dists env
       (forward env G ((models u G)\<lparr>training := False\<rparr>)
          (fst (latent_space env 256 None (world u))))
       (fst (dataset env 256 None (snd (latent_space env 256 None (world u))))))"
  by (simp add: w_dist_mean_def eval_generator_def eval_def module_calls split_def Let_def)

lemma train_loop_run:
  "train_loop env k n_batch (s, all_dists) = Inr (t, dists) \<Longrightarrow>
     \<exists>us. length us = k \<and> run_through env n_batch s us t \<and>
          dists = all_dists @ map (\<lambda>u. fst (w_dist_mean env u)) us"
proof (induction k arbitrary: s all_dists)
  case 0
  then show ?case by simp
next
  case (Suc k)
  from Suc.prems obtain s1 d1 where
    step: "train_step env n_batch (s, all_dists) = Inr (s1, d1)" and
    rest: "train_loop env k n_batch (s1, d1) = Inr (t, dists)"
    by (auto split: sum.splits)
  from step obtain u where u: "train_update env n_batch s = Inr u"
    and s1: "s1 = snd (w_dist_mean env u)" and d1: "d1 = all_dists @ [fst (w_dist_mean env u)]"
    by (rule train_step_Inr)
  from Suc.IH [OF rest] obtain us where us: "length us = k" "run_through env n_batch s1 us t"
    "dists = d1 @ map (\<lambda>u. fst (w_dist_mean env u)) us"
    by blast
  have "length (u # us) = Suc k" "run_through env n_batch s (u # us) t"
    "dists = all_dists @ map (\<lambda>u. fst (w_dist_mean env u)) (u # us)"
    using u us by (simp_all add: s1 d1)
  then show ?case by blast
qed

text \<open>
  Claim C3. Every epoch that returns, whichever role it trained, ends with the
  monitoring of lines 96 to 98, which appends one scalar to \<^verbatim>\<open>all_dists\<close>: the mean
  of the Wasserstein distances between the output of the generator, run in eval mode
  on 256 fresh latent points, and 256 fresh points of the dataset. So the sequence that
  a run of \<open>n_epochs\<close> epochs hands to the plot has \<open>n_epochs\<close> entries, 7 after
  \<^verbatim>\<open>train(7, 16)\<close>, and its entries are, in their order, these means, each taken in
  the state that the update of its epoch left.
\<close>

theorem distance_recorded_every_step:
  "(train_step env n_batch (s, all_dists) = Inr (s', all_dists') \<longrightarrow>
      (\<exists>s5. train_update env n_batch s = Inr s5 \<and> s' = snd (w_dist_mean env s5) \<and>
            all_dists' = all_dists @ [fst (w_dist_mean env s5)])) \<and>
   fst (w_dist_mean env u) =
     (let (lat, w1) = latent_space env 256 None (world u);
          gen_out = forward env G ((models u G)\<lparr>training := False\<rparr>) lat;
          (from_data, w2) = dataset env 256 None w1
      in torch_mean (all_Wasserstein_dists env gen_out from_data)) \<and>
   calls (snd (w_dist_mean env u)) =
     calls u @ [Eval_mode G, Forward_pass G False] @
       (if training (models u G) then [Train_mode G] else []) \<and>
   (train env n_epochs n_batch s0 = Inr (t, dists) \<longrightarrow>
      length dists = nat n_epochs \<and>
      (\<exists>us. run_through env n_batch s0 us t \<and>
            dists = map (\<lambda>u. fst (w_dist_mean env u)) us))"
proof (intro conjI impI)
  assume "train_step env n_batch (s, all_dists) = Inr (s', all_dists')"
  then show "\<exists>s5. train_update env n_batch s = Inr s5 \<and> s' = snd (w_dist_mean env s5) \<and>
            all_dists' = all_dists @ [fst (w_dist_mean env s5)]"
    by (auto elim!: train_step_Inr)
next
  show "fst (w_dist_mean env u) =
     (let (lat, w1) = latent_space env 256 None (world u);
          gen_out = forward env G ((models u G)\<lparr>training := False\<rparr>) lat;
          (from_data, w2) = dataset env 256 None w1
      in torch_mean (all_Wasserstein_dists env gen_out from_data))"
    by (simp add: fst_w_dist_mean split_def Let_def)
next
  show "calls (snd (w_dist_mean env u)) =
     calls u @ [Eval_mode G, Forward_pass G False] @
       (if training (models u G) then [Train_mode G] else [])"
    by (rule w_dist_mean_calls)
next
  assume "train env n_epochs n_batch s0 = Inr (t, dists)"
  then show "length dists = nat n_epochs"
    using train_loop_totals [of env "nat n_epochs" n_batch s0 "[]" t dists]
    by (simp add: train_def)
next
  assume "train env n_epochs n_batch s0 = Inr (t, dists)"
  then show "\<exists>us. run_through env n_batch s0 us t \<and>
            dists = map (\<lambda>u. fst (w_dist_mean env u)) us"
    using train_loop_run [of env "nat n_epochs" n_batch s0 "[]" t dists]
    by (auto simp: train_def)
qed

theorem distance_recorded_every_step_witness:
  "\<not> isl (train_step (example_env alternate) 16 (example_trainer True, [])) \<and>
   snd (projr (train_step (example_env alternate) 16 (example_trainer True, []))) = [Some 2] \<and>
   fst (w_dist_mean (example_env alternate) (example_trainer True)) = Some 2 \<and>
   calls (snd (w_dist_mean (example_env alternate) (example_trainer True))) =
     [Eval_mode G, Forward_pass G False, Train_mode G] \<and>
   \<not> isl (train (example_env alternate) 7 16 (example_trainer True)) \<and>
   length (snd (projr (train (example_env alternate) 7 16 (example_trainer True)))) = 7 \<and>
   snd (projr (train (example_env alternate) 7 16 (example_trainer True))) =
     [Some 2, Some 2, Some 2, Some 2, Some 2, Some 2, Some 2]"
proof -
  let ?E = "example_env alternate" and ?s = "example_trainer True"
  let ?r = "train_step ?E 16 (?s, [])" and ?t = "train ?E 7 16 ?s"
  from train_step_returns [OF example_contracts, of 16 alternate "(?s, [])"]
  obtain st' where r: "?r = Inr st'" by auto
  from train_returns [OF example_contracts, of 16 alternate 7 ?s]
  obtain st'' where t: "?t = Inr st''" by auto
  have a: "all_Wasserstein_dists ?E = (\<lambda>a b. [1, 3])"
    by (simp add: example_env_def)
  have i: "calls ?s = []" "training (models ?s G)"
    by (simp_all add: example_trainer_def init_def)
  note inst = distance_recorded_every_step [of ?E 16 ?s "[]" "fst (projr ?r)" "snd (projr ?r)" ?s
      7 ?s "fst (projr ?t)" "snd (projr ?t)"]
  have m: "fst (w_dist_mean ?E v) = Some 2" for v
    using distance_recorded_every_step [of ?E 16 ?s "[]" "fst (projr ?r)" "snd (projr ?r)" v]
    by (simp add: a torch_mean_def split_def Let_def)
  from inst projr_Inr [OF t] obtain us where
    l: "length (snd (projr ?t)) = 7" and
    us: "snd (projr ?t) = map (\<lambda>u. fst (w_dist_mean ?E u)) us"
    by auto
  from us have "snd (projr ?t) = replicate (length us) (Some 2)"
    by (simp add: m map_replicate_const)
  with l have d: "snd (projr ?t) = replicate 7 (Some 2)"
    by simp
  from inst projr_Inr [OF r] have s: "snd (projr ?r) = [Some 2]"
    by (auto simp: m)
  from inst have c: "calls (snd (w_dist_mean ?E ?s)) =
     [Eval_mode G, Forward_pass G False, Train_mode G]"
    by (simp add: i)
  from r t s m [of ?s] c l d show ?thesis
    by (simp add: eval_nat_numeral)
qed

subsection \<open>Beyond 53 bits\<close>

lemma bit_length_lower: "0 < n \<Longrightarrow> 2 ^ (bit_length n - 1) \<le> n"
proof (induction n rule: bit_length.induct)
  case (1 n)
  show ?case
  proof (cases "n div 2 = 0")
    case True
    with "1.prems" have "n = 1" by (simp add: div_eq_0_iff) 
    then show ?thesis
      by (simp add: bit_length.simps [of "Suc 0"] bit_length.simps [of 0])
  next
    case False
    then have p: "0 < n div 2" by simp
    from "1.IH" [OF _ p] "1.prems" have ih: "2 ^ (bit_length (n div 2) - 1) \<le> n div 2"
      by simp
    have b: "bit_length n = Suc (bit_length (n div 2))"
      using "1.prems" by (subst bit_length.simps) simp
    have "0 < bit_length (n div 2)"
      using p by (subst bit_length.simps) simp
    then have "(2::nat) ^ bit_length (n div 2) = 2 * 2 ^ (bit_length (n div 2) - 1)"
      by (cases "bit_length (n div 2)") simp_all
    also have "\<dots> \<le> 2 * (n div 2)" using ih by simp
    also have "\<dots> \<le> n" by simp
    finally show ?thesis by (simp add: b)
  qed
qed

lemma true_div_2_overflow:
  assumes "2 ^ 1025 \<le> n"
  shows "true_div_2 n = Inl OverflowError"
proof -
  define a where "a = nat \<bar>n\<bar>"
  define k where "k = bit_length a - 53"
  have a: "2 ^ 1025 \<le> a"
    using assms by (simp add: a_def le_nat_iff)
  then have L: "1025 < bit_length a" by (rule bit_length_gt)
  then have big: "\<not> bit_length a \<le> 53" by simp
  have "0 < a" using a by (simp add: less_le_trans [OF _ a])
  from bit_length_lower [OF this] have low: "2 ^ (bit_length a - 1) \<le> a" .
  have "bit_length a - 1 = 52 + k"
    using L by (simp add: k_def)
  then have split: "(2::nat) ^ (bit_length a - 1) = 2 ^ 52 * 2 ^ k"
    by (simp only: power_add)
  from low have "2 ^ 52 * 2 ^ k \<le> a" by (simp only: split)
  then have "2 ^ 52 \<le> a div 2 ^ k"
    by (simp add: less_eq_div_iff_mult_less_eq)
  moreover have "a div 2 ^ k \<le> round_half_even a k"
    by (simp add: round_half_even_def Let_def)
  ultimately have "2 ^ 52 \<le> round_half_even a k" by (rule order_trans)
  then have "2 ^ 52 * 2 ^ k \<le> round_half_even a k * 2 ^ k"
    by (rule mult_le_mono1)
  moreover have "(2::nat) ^ 1025 \<le> 2 ^ (bit_length a - 1)"
    using L by (intro power_increasing) simp_all
  ultimately have "2 ^ 1025 \<le> round_half_even a k * 2 ^ k"
    by (simp only: split [symmetric])
  with big show ?thesis
    by (simp add: true_div_2_def Let_def a_def [symmetric] k_def [symmetric])
qed

lemma halves_beyond_53_bits:
  "ceil_half (2 ^ 53 + 1) = Inr (2 ^ 52)" "int_half (2 ^ 53 + 1) = Inr (2 ^ 52)"
proof -
  have "true_div_2 (2 ^ 53 + 1) = Inr (real (round_half_even (nat (2 ^ 53 + 1)) 1))"
    by (rule true_div_2_54_bits) simp_all
  also have "round_half_even (nat (2 ^ 53 + 1)) 1 = 2 ^ 52"
    by (simp add: round_half_even_def Let_def)
  finally have t: "true_div_2 (2 ^ 53 + 1) = Inr (2 ^ 52)" by simp
  show "ceil_half (2 ^ 53 + 1) = Inr (2 ^ 52)" "int_half (2 ^ 53 + 1) = Inr (2 ^ 52)"
    using t by (simp_all add: ceil_half_def int_half_def)
qed

subsection \<open>The two input functions\<close>

lemma halves_16: "ceil_half 16 = Inr 8" "int_half 16 = Inr 8"
  by (simp_all add: ceil_half_exact int_half_exact)

text \<open>
  Claim C4. For a batch size of 16, \<^verbatim>\<open>discriminator_input\<close> returns the labels
  8 times 0 and then 8 times 1, and as input the output of the generator (in eval
  mode) on 8 fresh latent points followed by 8 points drawn from the dataset. When
  the generator returns 8 rows for its 8 inputs, the first 8 rows of the input are
  the generated ones and the rest the real ones, in the order of the labels.
\<close>

theorem discriminator_input_16:
  "(let (gen_in, w1) = latent_space env 8 (Some (device s)) (world s);
        gen_out = forward env G ((models s G)\<lparr>training := False\<rparr>) gen_in;
        (from_data, w2) = dataset env 8 (Some (device s)) w1;
        (dis_in, y) = fst (projr (discriminator_input env 16 s))
    in \<not> isl (discriminator_input env 16 s) \<and>
       y = replicate 8 [0] @ replicate 8 [1] \<and> dis_in = gen_out @ from_data \<and>
       (length gen_out = 8 \<longrightarrow> take 8 dis_in = gen_out \<and> drop 8 dis_in = from_data))"
  using fst_discriminator_input [OF halves_16, of env s]
  by (simp add: labels_def split_def Let_def)

theorem discriminator_input_16_witness:
  "\<not> isl (discriminator_input (example_env alternate) 16 (example_trainer True)) \<and>
   fst (projr (discriminator_input (example_env alternate) 16 (example_trainer True))) =
     (replicate 8 [1] @ replicate 8 [2], replicate 8 [0] @ replicate 8 [1]) \<and>
   length (forward (example_env alternate) G ((models (example_trainer True) G)\<lparr>training := False\<rparr>)
     (fst (latent_space (example_env alternate) 8 (Some ''cpu'') 0))) = 8 \<and>
   take 8 (fst (fst (projr
       (discriminator_input (example_env alternate) 16 (example_trainer True))))) =
     forward (example_env alternate) G ((models (example_trainer True) G)\<lparr>training := False\<rparr>)
       (fst (latent_space (example_env alternate) 8 (Some ''cpu'') 0)) \<and>
   drop 8 (fst (fst (projr
       (discriminator_input (example_env alternate) 16 (example_trainer True))))) =
     fst (dataset (example_env alternate) 8 (Some ''cpu'') 1)"
proof -
  have d: "device (example_trainer True) = ''cpu''" "world (example_trainer True) = 0"
    by (simp_all add: example_trainer_def init_def)
  have l: "latent_space (example_env alternate) 8 (Some ''cpu'') 0 = (replicate 8 [1], 1)"
    by (simp add: example_env_def)
  have f: "forward (example_env alternate) G m x = x" for m x
    by (simp add: example_env_def)
  have da: "fst (dataset (example_env alternate) 8 (Some ''cpu'') w) = replicate 8 [2]" for w
    by (simp add: example_env_def)
  from discriminator_input_16 [of "example_env alternate" "example_trainer True"]
  show ?thesis
    by (simp add: d l f da split_def Let_def prod_eq_iff)
qed

text \<open>
  Claim C7. \<^verbatim>\<open>generator_input\<close> asks the latent sampler for \<open>n\<close> points, runs
  the generator on them and pairs its output with \<open>n\<close> labels, each of them 1.
\<close>

theorem generator_input_labels:
  assumes "0 \<le> n"
  shows "fst (generator_input env n s) =
           (forward env G (models s G) (fst (latent_space env n (Some (device s)) (world s))),
            replicate (nat n) [1]) \<and>
         int (length (snd (fst (generator_input env n s)))) = n \<and>
         (\<forall>l \<in> set (concat (snd (fst (generator_input env n s)))). l = 1)"
  using assms
  by (simp add: generator_input_def module_calls labels_def split_def Let_def)

theorem generator_input_labels_witness:
  "(0::int) \<le> 3 \<and>
   fst (generator_input (example_env alternate) 3 (example_trainer True)) =
     ([[1], [1], [1]], [[1], [1], [1]]) \<and>
   int (length (snd (fst (generator_input (example_env alternate) 3 (example_trainer True))))) = 3 \<and>
   concat (snd (fst (generator_input (example_env alternate) 3 (example_trainer True)))) = [1, 1, 1]"
proof -
  have h: "(0::int) \<le> 3" by simp
  have d: "device (example_trainer True) = ''cpu''" "world (example_trainer True) = 0"
    by (simp_all add: example_trainer_def init_def)
  have l: "latent_space (example_env alternate) 3 (Some ''cpu'') 0 = ([[1], [1], [1]], 1)"
    by (simp add: example_env_def numeral_3_eq_3)
  have f: "forward (example_env alternate) G m x = x" for m x
    by (simp add: example_env_def)
  from generator_input_labels [OF h, of "example_env alternate" "example_trainer True"]
  show ?thesis
    by (simp add: d l f numeral_3_eq_3)
qed

text \<open>
  Claim C8 says that for every odd batch size \<open>n\<close> the label vector of
  \<^verbatim>\<open>discriminator_input\<close> has \<open>n\<close> rows, \<open>\<lceil>n / 2\<rceil>\<close> of them for the fake half.
  The quotient \<^verbatim>\<open>n_batch / 2\<close> is a double: for the odd size \<open>2 ^ 53 + 1\<close> it
  is \<open>2 ^ 52\<close>, both halves have \<open>2 ^ 52\<close> rows and the label vector has
  \<open>2 ^ 53\<close> rows, one less than the batch size.
\<close>

theorem odd_batch_beyond_53_bits:
  "(0::int) \<le> 2 ^ 53 + 1 \<and> odd ((2::int) ^ 53 + 1) \<and>
   \<lceil>real_of_int (2 ^ 53 + 1) / 2\<rceil> = 2 ^ 52 + 1 \<and>
   ceil_half (2 ^ 53 + 1) = Inr (2 ^ 52) \<and>
   int_half (2 ^ 53 + 1) = Inr (2 ^ 52) \<and>
   \<not> isl (discriminator_input (example_env alternate) (2 ^ 53 + 1) (example_trainer True)) \<and>
   int (length (snd (fst (projr
     (discriminator_input (example_env alternate) (2 ^ 53 + 1) (example_trainer True)))))) =
     2 ^ 53"
proof -
  note h = halves_beyond_53_bits
  have "int (length (snd (fst (projr
     (discriminator_input (example_env alternate) (2 ^ 53 + 1) (example_trainer True)))))) =
     2 ^ 53"
    using fst_discriminator_input(2) [OF h, of "example_env alternate" "example_trainer True"]
    by (simp add: length_labels)
  moreover have "\<lceil>real_of_int (2 ^ 53 + 1) / 2\<rceil> = 2 ^ 52 + 1"
    by simp
  ultimately show ?thesis
    using h fst_discriminator_input(1) [OF h, of "example_env alternate" "example_trainer True"]
    by simp
qed

text \<open>
  Claim C8, amended. For an odd batch size \<open>n\<close> below \<open>2 ^ 53\<close>,
  \<^verbatim>\<open>discriminator_input\<close> asks the latent sampler for \<open>\<lceil>n / 2\<rceil>\<close> points, which it
  labels 0, and the dataset for \<open>\<lfloor>n / 2\<rfloor>\<close> points, which it labels 1. The label
  vector has \<open>n\<close> rows, and so has the input when the two samplers return as many
  rows as they are asked for and the generator returns one row for each row it is
  given.
\<close>

theorem odd_batch_split:
  assumes "0 \<le> n" and "odd n" and "n < 2 ^ 53"
  shows "ceil_half n = Inr \<lceil>real_of_int n / 2\<rceil> \<and> int_half n = Inr \<lfloor>real_of_int n / 2\<rfloor> \<and>
         ceil_half n = Inr ((n + 1) div 2) \<and> int_half n = Inr ((n - 1) div 2) \<and>
         \<not> isl (discriminator_input env n s) \<and>
         fst (fst (projr (discriminator_input env n s))) =
           forward env G ((models s G)\<lparr>training := False\<rparr>)
             (fst (latent_space env ((n + 1) div 2) (Some (device s)) (world s)))
           @ fst (dataset env ((n - 1) div 2) (Some (device s))
                    (snd (latent_space env ((n + 1) div 2) (Some (device s)) (world s)))) \<and>
         snd (fst (projr (discriminator_input env n s))) =
           replicate (nat ((n + 1) div 2)) [0] @ replicate (nat ((n - 1) div 2)) [1] \<and>
         int (length (snd (fst (projr (discriminator_input env n s))))) = n \<and>
         (returns_rows (latent_space env) \<and> returns_rows (dataset env) \<and> keeps_rows env G \<longrightarrow>
            int (length (fst (fst (projr (discriminator_input env n s))))) = n)"
proof -
  have a: "\<bar>n\<bar> < 2 ^ 53" using assms(1,3) by simp
  have c: "ceil_half n = Inr ((n + 1) div 2)"
    by (rule ceil_half_exact [OF a])
  have half: "n div 2 = (n - 1) div 2"
    using assms(2) by presburger
  then have i: "int_half n = Inr ((n - 1) div 2)"
    using int_half_exact [OF assms(1,3)] by simp
  have "\<lfloor>real_of_int n / 2\<rfloor> = n div 2"
    by linarith
  then have r: "\<lceil>real_of_int n / 2\<rceil> = (n + 1) div 2" "\<lfloor>real_of_int n / 2\<rfloor> = (n - 1) div 2"
    using half by linarith+
  have nn: "0 \<le> (n + 1) div 2" "0 \<le> (n - 1) div 2" "(n + 1) div 2 + (n - 1) div 2 = n"
    using assms(1,2) by presburger+
  note d = fst_discriminator_input [OF c i, of env s]
  have x: "fst (fst (projr (discriminator_input env n s))) =
           forward env G ((models s G)\<lparr>training := False\<rparr>)
             (fst (latent_space env ((n + 1) div 2) (Some (device s)) (world s)))
           @ fst (dataset env ((n - 1) div 2) (Some (device s))
                    (snd (latent_space env ((n + 1) div 2) (Some (device s)) (world s))))"
    by (simp add: d(2))
  have y: "snd (fst (projr (discriminator_input env n s))) =
           replicate (nat ((n + 1) div 2)) [0] @ replicate (nat ((n - 1) div 2)) [1]"
    by (simp add: d(2) labels_def)
  have len: "int (length (snd (fst (projr (discriminator_input env n s))))) = n"
    using nn by (simp add: y)
  have rows: "int (length (fst (fst (projr (discriminator_input env n s))))) = n"
    if "returns_rows (latent_space env) \<and> returns_rows (dataset env) \<and> keeps_rows env G"
    using that nn by (simp add: x returns_rows_def keeps_rows_def)
  from c i r d(1) x y len rows show ?thesis by simp
qed

theorem odd_batch_split_witness:
  "(0::int) \<le> 3 \<and> odd (3::int) \<and> (3::int) < 2 ^ 53 \<and>
   ceil_half 3 = Inr 2 \<and> int_half 3 = Inr 1 \<and>
   \<not> isl (discriminator_input (example_env alternate) 3 (example_trainer True)) \<and>
   fst (projr (discriminator_input (example_env alternate) 3 (example_trainer True))) =
     ([[1], [1], [2]], [[0], [0], [1]]) \<and>
   int (length (snd (fst (projr
     (discriminator_input (example_env alternate) 3 (example_trainer True)))))) = 3 \<and>
   returns_rows (latent_space (example_env alternate)) \<and>
   returns_rows (dataset (example_env alternate)) \<and>
   keeps_rows (example_env alternate) G \<and>
   int (length (fst (fst (projr
     (discriminator_input (example_env alternate) 3 (example_trainer True)))))) = 3"
proof -
  have h: "(0::int) \<le> 3" "odd (3::int)" "(3::int) < 2 ^ 53" by simp_all
  have c: "returns_rows (latent_space (example_env alternate))"
    "returns_rows (dataset (example_env alternate))" "keeps_rows (example_env alternate) G"
    using example_contracts [of alternate] by (simp_all add: contracts_def)
  note split = odd_batch_split [OF h, of "example_env alternate" "example_trainer True"]
  from split have e: "ceil_half 3 = Inr 2" "int_half 3 = Inr 1"
    by simp_all
  from split have n: "\<not> isl (discriminator_input (example_env alternate) 3 (example_trainer True))"
    by blast
  from split have v: "fst (projr (discriminator_input (example_env alternate) 3 (example_trainer True))) =
     ([[1], [1], [2]], [[0], [0], [1]])"
    by (simp add: prod_eq_iff example_env_def example_trainer_def init_def eval_nat_numeral)
  from split have l:
    "int (length (snd (fst (projr
       (discriminator_input (example_env alternate) 3 (example_trainer True)))))) = 3"
    by blast
  from split c have r:
    "int (length (fst (fst (projr
       (discriminator_input (example_env alternate) 3 (example_trainer True)))))) = 3"
    by blast
  from h e n v l c r show ?thesis by blast
qed

subsection \<open>The three rates\<close>

lemma train_step_rates:
  assumes "train_step env n_batch (s, all_dists) = Inr (s', all_dists')"
  obtains c where
    "count_loop (d_thresh s) (concat (snd (batch env n_batch s)))
       (concat (prediction env n_batch s)) no_counts = Inr c"
    "d_fpr s' =
       (if fP c + tN c > 0 then d_fpr s @ [real (fP c) / real (fP c + tN c)] else d_fpr s)"
    "d_precision s' =
       (if tP c + fP c > 0 then d_precision s @ [real (tP c) / real (tP c + fP c)]
        else d_precision s)"
    "d_recall s' =
       (if tP c + fN c > 0 then d_recall s @ [real (tP c) / real (tP c + fN c)] else d_recall s)"
proof -
  from assms obtain s5 where u: "train_update env n_batch s = Inr s5"
    and s': "s' = snd (w_dist_mean env s5)"
    by (rule train_step_Inr)
  from u obtain c where
    n: "\<not> isl (in_functions env (totrain_next env s) n_batch s)" and
    c: "count_loop (d_thresh s) (concat (snd (batch env n_batch s)))
       (concat (prediction env n_batch s)) no_counts = Inr c"
    and s5: "s5 = update env (totrain_next env s) (fst (batch env n_batch s))
            (snd (batch env n_batch s))
            (append_rates c
              (log_loss (totrain_next env s)
                (loss_functions env (totrain_next env s) (prediction env n_batch s)
                   (snd (batch env n_batch s)))
                (snd (predict env (totrain_next env s) (fst (batch env n_batch s))
                       (snd (projr (in_functions env (totrain_next env s) n_batch s)))))))"
    by (rule train_update_Inr)
  show thesis
    using n by (intro that [OF c]) (simp_all add: s' s5 fields)
qed

lemma count_loop_no_counts:
  assumes "count_loop th ys ps no_counts = Inr c"
  shows "fP c = length (filter (\<lambda>(y, p). y = 0 \<and> p > th) (zip ys ps))"
    and "tN c = length (filter (\<lambda>(y, p). y = 0 \<and> \<not> p > th) (zip ys ps))"
    and "tP c = length (filter (\<lambda>(y, p). y \<noteq> 0 \<and> p > th) (zip ys ps))"
    and "fN c = length (filter (\<lambda>(y, p). y \<noteq> 0 \<and> \<not> p > th) (zip ys ps))"
  using count_loop_counts [OF assms] by (simp_all add: no_counts_def)

lemma count_loop_zero_labels_from:
  "count_loop th ys ps c = Inr c' \<Longrightarrow> \<forall>y \<in> set ys. y = 0 \<Longrightarrow>
     tP c' = tP c \<and> fN c' = fN c \<and> fP c' + tN c' = fP c + tN c + length ys \<and>
     fP c \<le> fP c' \<and> (fP c < fP c' \<longleftrightarrow> (\<exists>p \<in> set (take (length ys) ps). p > th))"
proof (induction th ys ps c rule: count_loop.induct)
  case (1 thresh mod_pred_flat c)
  then show ?case by simp
next
  case (2 thresh y_i y_flat c)
  then show ?case by simp
next
  case (3 thresh y_i y_flat pred_i mod_pred_flat c)
  from "3.prems" have
    r: "count_loop thresh y_flat mod_pred_flat (count_one thresh y_i pred_i c) = Inr c'"
    and z: "y_i = 0" "\<forall>y \<in> set y_flat. y = 0"
    by simp_all
  note ih = "3.IH" [OF r z(2)]
  show ?case
  proof (cases "pred_i > thresh")
    case True
    with ih z(1) show ?thesis by (auto simp: count_one_def)
  next
    case False
    with ih z(1) show ?thesis by (auto simp: count_one_def)
  qed
qed

lemma count_loop_zero_labels:
  assumes "count_loop th ys ps no_counts = Inr c" and "\<forall>y \<in> set ys. y = 0"
  shows "tP c = 0" and "fN c = 0" and "fP c + tN c = length ys"
    and "fP c > 0 \<longleftrightarrow> (\<exists>p \<in> set (take (length ys) ps). p > th)"
  using count_loop_zero_labels_from [OF assms] by (simp_all add: no_counts_def)

lemma count_loop_nonzero_labels:
  assumes "count_loop th ys ps no_counts = Inr c" and "\<forall>y \<in> set ys. y \<noteq> 0"
  shows "fP c = 0" and "tN c = 0"
proof -
  have z: "y \<noteq> 0" if "(y, p) \<in> set (zip ys ps)" for y p
    using that assms(2) by (auto dest: set_zip_leftD)
  have "filter (\<lambda>(y, p). y = 0 \<and> p > th) (zip ys ps) = []"
    "filter (\<lambda>(y, p). y = 0 \<and> \<not> p > th) (zip ys ps) = []"
    using z by (auto simp: filter_empty_conv)
  then show "fP c = 0" "tN c = 0"
    by (simp_all add: count_loop_no_counts [OF assms(1)])
qed

lemma example_batch:
  "batch (example_env (\<lambda>s. D)) 1 (example_trainer True) = ([[1]], [[0]])"
  "batch (example_env (\<lambda>s. G)) 2 (example_trainer g) = ([[1], [1]], [[1], [1]])"
proof -
  have h: "ceil_half 1 = Inr 1" "int_half 1 = Inr 0"
    by (simp_all add: ceil_half_exact int_half_exact)
  show "batch (example_env (\<lambda>s. D)) 1 (example_trainer True) = ([[1]], [[0]])"
    using fst_discriminator_input(2) [OF h, of "example_env (\<lambda>s. D)" "example_trainer True"]
    by (simp add: batch_def in_functions_role labels_def example_env_def example_trainer_def
        init_def)
  show "batch (example_env (\<lambda>s. G)) 2 (example_trainer g) = ([[1], [1]], [[1], [1]])"
    by (simp add: batch_def in_functions_role fst_generator_input labels_def example_env_def
        example_trainer_def init_def eval_nat_numeral)
qed

lemma example_prediction:
  "prediction (example_env (\<lambda>s. D)) 1 (example_trainer True) = [[1]]"
  "prediction (example_env (\<lambda>s. G)) 2 (example_trainer g) = [[1], [1]]"
  by (simp_all add: prediction_def example_batch predict_def call_model_def split_def Let_def)
     (simp_all add: example_env_def)

lemma example_thresh: "d_thresh (example_trainer g) = 0.5"
  "d_fpr (example_trainer g) = []" "d_precision (example_trainer g) = []"
  "d_recall (example_trainer g) = []"
  by (simp_all add: example_trainer_def init_def)

text \<open>
  Claim C5 says that an epoch whose batch has only labels 0 does not extend the
  precision sequence. It does when a prediction is above the threshold: with a batch
  size of 1 the discriminator's batch is one generated row with label 0; the critic
  scores it 1, above 0.5, so \<open>fP = 1\<close>, the denominator \<open>tP + fP\<close> of the precision
  is 1 and the value 0 is appended.
\<close>

theorem all_zero_labels_extend_precision:
  "concat (snd (batch (example_env (\<lambda>s. D)) 1 (example_trainer True))) = [0] \<and>
   d_precision (example_trainer True) = [] \<and>
   \<not> isl (train_step (example_env (\<lambda>s. D)) 1 (example_trainer True, [])) \<and>
   d_precision (fst (projr (train_step (example_env (\<lambda>s. D)) 1 (example_trainer True, [])))) = [0]"
proof -
  let ?r = "train_step (example_env (\<lambda>s. D)) 1 (example_trainer True, [])"
  from train_step_returns [OF example_contracts, of 1 "\<lambda>s. D" "(example_trainer True, [])"]
  obtain st' where r: "?r = Inr st'" by auto
  from projr_Inr [OF r] obtain c where
    "count_loop (d_thresh (example_trainer True))
       (concat (snd (batch (example_env (\<lambda>s. D)) 1 (example_trainer True))))
       (concat (prediction (example_env (\<lambda>s. D)) 1 (example_trainer True))) no_counts = Inr c"
    "d_precision (fst (projr ?r)) =
       (if tP c + fP c > 0
        then d_precision (example_trainer True) @ [real (tP c) / real (tP c + fP c)]
        else d_precision (example_trainer True))"
    by (rule train_step_rates)
  then have "d_precision (fst (projr ?r)) = [0]"
    by (auto simp: example_batch example_prediction example_thresh no_counts_def count_one_def)
  with r show ?thesis
    by (simp add: example_batch example_thresh)
qed

text \<open>
  Claim C5, amended. In an epoch that returns, each of the three rates is appended
  exactly when its denominator is positive. When all labels of the batch are 0, the
  recall sequence is not extended; the precision sequence is extended, by the value 0,
  exactly when one of the predictions read is above \<^verbatim>\<open>d_thresh\<close>, and the sequence
  of false-positive rates is extended unless the batch is empty.
\<close>

theorem rates_guarded_by_denominators:
  assumes "train_step env n_batch (s, all_dists) = Inr (s', all_dists')"
  shows "\<exists>c. count_loop (d_thresh s) (concat (snd (batch env n_batch s)))
              (concat (prediction env n_batch s)) no_counts = Inr c \<and>
     d_fpr s' =
       (if fP c + tN c > 0 then d_fpr s @ [real (fP c) / real (fP c + tN c)] else d_fpr s) \<and>
     d_precision s' =
       (if tP c + fP c > 0 then d_precision s @ [real (tP c) / real (tP c + fP c)]
        else d_precision s) \<and>
     d_recall s' =
       (if tP c + fN c > 0 then d_recall s @ [real (tP c) / real (tP c + fN c)]
        else d_recall s) \<and>
     ((\<forall>l \<in> set (concat (snd (batch env n_batch s))). l = 0) \<longrightarrow>
        d_recall s' = d_recall s \<and>
        d_precision s' =
          (if \<exists>p \<in> set (take (length (concat (snd (batch env n_batch s))))
                          (concat (prediction env n_batch s))). p > d_thresh s
           then d_precision s @ [0] else d_precision s) \<and>
        d_fpr s' =
          (if concat (snd (batch env n_batch s)) = [] then d_fpr s
           else d_fpr s @ [real (fP c) / real (length (concat (snd (batch env n_batch s))))]))"
proof -
  let ?ys = "concat (snd (batch env n_batch s))" and ?ps = "concat (prediction env n_batch s)"
  from assms obtain c where
    c: "count_loop (d_thresh s) ?ys ?ps no_counts = Inr c"
    and fpr: "d_fpr s' =
       (if fP c + tN c > 0 then d_fpr s @ [real (fP c) / real (fP c + tN c)] else d_fpr s)"
    and pre: "d_precision s' =
       (if tP c + fP c > 0 then d_precision s @ [real (tP c) / real (tP c + fP c)]
        else d_precision s)"
    and rec: "d_recall s' =
       (if tP c + fN c > 0 then d_recall s @ [real (tP c) / real (tP c + fN c)] else d_recall s)"
    by (rule train_step_rates)
  have zero: "d_recall s' = d_recall s \<and>
        d_precision s' =
          (if \<exists>p \<in> set (take (length ?ys) ?ps). p > d_thresh s
           then d_precision s @ [0] else d_precision s) \<and>
        d_fpr s' = (if ?ys = [] then d_fpr s else d_fpr s @ [real (fP c) / real (length ?ys)])"
    if z: "\<forall>l \<in> set ?ys. l = 0"
  proof -
    note k = count_loop_zero_labels [OF c z]
    have "d_recall s' = d_recall s"
      by (simp add: rec k)
    moreover have "d_precision s' =
          (if \<exists>p \<in> set (take (length ?ys) ?ps). p > d_thresh s
           then d_precision s @ [0] else d_precision s)"
      using k(4) by (simp add: pre k(1))
    moreover have "d_fpr s' =
          (if ?ys = [] then d_fpr s else d_fpr s @ [real (fP c) / real (length ?ys)])"
      using k(3) by (simp add: fpr)
    ultimately show ?thesis by blast
  qed
  from c fpr pre rec zero show ?thesis by blast
qed

theorem rates_guarded_by_denominators_witness:
  "\<not> isl (train_step (example_env (\<lambda>s. D)) 1 (example_trainer True, [])) \<and>
   concat (snd (batch (example_env (\<lambda>s. D)) 1 (example_trainer True))) = [0] \<and>
   concat (prediction (example_env (\<lambda>s. D)) 1 (example_trainer True)) = [1] \<and>
   d_recall (fst (projr (train_step (example_env (\<lambda>s. D)) 1 (example_trainer True, [])))) = [] \<and>
   d_precision (fst (projr (train_step (example_env (\<lambda>s. D)) 1 (example_trainer True, [])))) = [0] \<and>
   d_fpr (fst (projr (train_step (example_env (\<lambda>s. D)) 1 (example_trainer True, [])))) = [1]"
proof -
  let ?r = "train_step (example_env (\<lambda>s. D)) 1 (example_trainer True, [])"
  from train_step_returns [OF example_contracts, of 1 "\<lambda>s. D" "(example_trainer True, [])"]
  obtain st' where r: "?r = Inr st'" by auto
  from rates_guarded_by_denominators [OF projr_Inr [OF r]]
  have "d_recall (fst (projr ?r)) = [] \<and> d_precision (fst (projr ?r)) = [0] \<and>
    d_fpr (fst (projr ?r)) = [1]"
    by (auto simp: example_batch example_prediction example_thresh no_counts_def count_one_def)
  with r show ?thesis
    by (simp add: example_batch example_prediction)
qed

text \<open>
  Claim C10. The counting and the three guarded appends run in every epoch that
  returns, whichever role was chosen; a prediction counts as positive when it is
  strictly above \<^verbatim>\<open>d_thresh\<close>. In an epoch that trains the Generator all labels
  are 1, so \<open>fP + tN = 0\<close> and the sequence of false-positive rates stays as it is.
\<close>

theorem generator_step_leaves_fpr:
  assumes "train_step env n_batch (s, all_dists) = Inr (s', all_dists')"
  shows "\<exists>c. count_loop (d_thresh s) (concat (snd (batch env n_batch s)))
              (concat (prediction env n_batch s)) no_counts = Inr c \<and>
     fP c = length (filter (\<lambda>(y, p). y = 0 \<and> p > d_thresh s)
              (zip (concat (snd (batch env n_batch s))) (concat (prediction env n_batch s)))) \<and>
     tN c = length (filter (\<lambda>(y, p). y = 0 \<and> \<not> p > d_thresh s)
              (zip (concat (snd (batch env n_batch s))) (concat (prediction env n_batch s)))) \<and>
     tP c = length (filter (\<lambda>(y, p). y \<noteq> 0 \<and> p > d_thresh s)
              (zip (concat (snd (batch env n_batch s))) (concat (prediction env n_batch s)))) \<and>
     fN c = length (filter (\<lambda>(y, p). y \<noteq> 0 \<and> \<not> p > d_thresh s)
              (zip (concat (snd (batch env n_batch s))) (concat (prediction env n_batch s)))) \<and>
     d_fpr s' =
       (if fP c + tN c > 0 then d_fpr s @ [real (fP c) / real (fP c + tN c)] else d_fpr s) \<and>
     d_precision s' =
       (if tP c + fP c > 0 then d_precision s @ [real (tP c) / real (tP c + fP c)]
        else d_precision s) \<and>
     d_recall s' =
       (if tP c + fN c > 0 then d_recall s @ [real (tP c) / real (tP c + fN c)]
        else d_recall s) \<and>
     (totrain_next env s = G \<longrightarrow> fP c + tN c = 0 \<and> d_fpr s' = d_fpr s)"
proof -
  let ?ys = "concat (snd (batch env n_batch s))" and ?ps = "concat (prediction env n_batch s)"
  from assms obtain c where
    c: "count_loop (d_thresh s) ?ys ?ps no_counts = Inr c"
    and fpr: "d_fpr s' =
       (if fP c + tN c > 0 then d_fpr s @ [real (fP c) / real (fP c + tN c)] else d_fpr s)"
    and pre: "d_precision s' =
       (if tP c + fP c > 0 then d_precision s @ [real (tP c) / real (tP c + fP c)]
        else d_precision s)"
    and rec: "d_recall s' =
       (if tP c + fN c > 0 then d_recall s @ [real (tP c) / real (tP c + fN c)] else d_recall s)"
    by (rule train_step_rates)
  note k = count_loop_no_counts [OF c]
  have gen: "fP c + tN c = 0 \<and> d_fpr s' = d_fpr s" if g: "totrain_next env s = G"
  proof -
    have "?ys = replicate (nat n_batch) 1"
      by (simp add: batch_role g fst_generator_input labels_def)
    then have "\<forall>y \<in> set ?ys. y \<noteq> 0" by simp
    from count_loop_nonzero_labels [OF c this] show ?thesis
      by (simp add: fpr)
  qed
  from c k fpr pre rec gen show ?thesis by blast
qed

theorem generator_step_leaves_fpr_witness:
  "\<not> isl (train_step (example_env (\<lambda>s. G)) 2 (example_trainer True, [])) \<and>
   totrain_next (example_env (\<lambda>s. G)) (example_trainer True) = G \<and>
   d_fpr (fst (projr (train_step (example_env (\<lambda>s. G)) 2 (example_trainer True, [])))) = [] \<and>
   d_precision (fst (projr (train_step (example_env (\<lambda>s. G)) 2 (example_trainer True, [])))) = [1] \<and>
   d_recall (fst (projr (train_step (example_env (\<lambda>s. G)) 2 (example_trainer True, [])))) = [1]"
proof -
  let ?r = "train_step (example_env (\<lambda>s. G)) 2 (example_trainer True, [])"
  from train_step_returns [OF example_contracts, of 2 "\<lambda>s. G" "(example_trainer True, [])"]
  obtain st' where r: "?r = Inr st'" by auto
  have g: "totrain_next (example_env (\<lambda>s. G)) (example_trainer True) = G"
    by (simp add: example_env_def)
  from generator_step_leaves_fpr [OF projr_Inr [OF r]] g
  have "d_fpr (fst (projr ?r)) = [] \<and> d_precision (fst (projr ?r)) = [1] \<and>
    d_recall (fst (projr ?r)) = [1]"
    by (auto simp: example_batch example_prediction example_thresh no_counts_def count_one_def)
  with r g show ?thesis by simp
qed

subsection \<open>Modes and the order of the calls\<close>

lemma train_update_calls:
  assumes "train_update env n_batch s = Inr s'"
  shows "calls s' = calls s @
    (if totrain_next env s = G
     then [Forward_pass G (training (models s G)), Eval_mode D, Forward_pass D False,
           Train_mode D, Zero_grad G, Backward G, Opt_step G]
     else [Eval_mode G, Forward_pass G False, Train_mode G,
           Forward_pass D (training (models s D)), Train_mode D,
           Zero_grad D, Backward D, Opt_step D, Clamp D])"
  using assms
  by (cases "totrain_next env s") (auto elim!: train_update_Inr simp: fields)

lemma prediction_mode:
  assumes "\<not> isl (in_functions env (totrain_next env s) n_batch s)"
  shows "prediction env n_batch s =
     forward env D
       (if totrain_next env s = G then (models s D)\<lparr>training := False\<rparr> else models s D)
       (fst (batch env n_batch s))"
  using assms
  by (cases "totrain_next env s")
     (simp_all add: prediction_def predict_def module_calls split_def Let_def batch_def fields)

text \<open>
  Claim C6. The calls of lines 42 to 92, in their order. When the Generator is trained
  the discriminator is put in eval mode right before its forward pass, which runs in
  eval mode, and back in training mode right after it, before the gradients are
  cleared and the loss is propagated back. When the Discriminator is trained no call
  puts it in eval mode: its forward pass runs in the mode the discriminator had when
  the epoch began.
\<close>

theorem discriminator_eval_only_for_generator_step:
  assumes "train_update env n_batch s = Inr s'"
  shows "(totrain_next env s = G \<longrightarrow>
            calls s' = calls s @
              [Forward_pass G (training (models s G)), Eval_mode D, Forward_pass D False,
               Train_mode D, Zero_grad G, Backward G, Opt_step G] \<and>
            prediction env n_batch s =
              forward env D ((models s D)\<lparr>training := False\<rparr>) (fst (batch env n_batch s))) \<and>
         (totrain_next env s = D \<longrightarrow>
            calls s' = calls s @
              [Eval_mode G, Forward_pass G False, Train_mode G,
               Forward_pass D (training (models s D)), Train_mode D,
               Zero_grad D, Backward D, Opt_step D, Clamp D] \<and>
            prediction env n_batch s = forward env D (models s D) (fst (batch env n_batch s)))"
proof -
  from assms have "\<not> isl (in_functions env (totrain_next env s) n_batch s)"
    by (rule train_update_Inr)
  from train_update_calls [OF assms] prediction_mode [OF this] show ?thesis
    by simp
qed

theorem discriminator_eval_only_for_generator_step_witness:
  "\<not> isl (train_update (example_env (\<lambda>s. G)) 2 (example_trainer True)) \<and>
   totrain_next (example_env (\<lambda>s. G)) (example_trainer True) = G \<and>
   calls (projr (train_update (example_env (\<lambda>s. G)) 2 (example_trainer True))) =
     [Forward_pass G True, Eval_mode D, Forward_pass D False, Train_mode D,
      Zero_grad G, Backward G, Opt_step G] \<and>
   \<not> isl (train_update (example_env (\<lambda>s. D)) 2 (example_trainer True)) \<and>
   totrain_next (example_env (\<lambda>s. D)) (example_trainer True) = D \<and>
   calls (projr (train_update (example_env (\<lambda>s. D)) 2 (example_trainer True))) =
     [Eval_mode G, Forward_pass G False, Train_mode G, Forward_pass D True, Train_mode D,
      Zero_grad D, Backward D, Opt_step D, Clamp D]"
proof -
  let ?g = "train_update (example_env (\<lambda>s. G)) 2 (example_trainer True)"
  let ?d = "train_update (example_env (\<lambda>s. D)) 2 (example_trainer True)"
  from train_update_returns [OF example_contracts, of 2 "\<lambda>s. G" "example_trainer True"]
  obtain sg where g: "?g = Inr sg" by auto
  from train_update_returns [OF example_contracts, of 2 "\<lambda>s. D" "example_trainer True"]
  obtain sd where d: "?d = Inr sd" by auto
  have p: "totrain_next (example_env (\<lambda>s. G)) (example_trainer True) = G"
    "totrain_next (example_env (\<lambda>s. D)) (example_trainer True) = D"
    by (simp_all add: example_env_def)
  have i: "calls (example_trainer True) = []" "training (models (example_trainer True) G)"
    "training (models (example_trainer True) D)"
    by (simp_all add: example_trainer_def init_def)
  from discriminator_eval_only_for_generator_step [OF projr_Inr1 [OF g]]
    discriminator_eval_only_for_generator_step [OF projr_Inr1 [OF d]]
  show ?thesis
    using g d by (simp add: p i)
qed

lemma train_step_modes:
  assumes "train_step env n_batch (s, all_dists) = Inr (s', all_dists')"
  shows "training (models s' D)"
    and "training (models s' G) = (totrain_next env s = D \<or> training (models s G))"
  using assms
  by (cases "totrain_next env s"; auto elim!: train_step_Inr train_update_Inr simp: fields)+

text \<open>
  Claim C9 says that every epoch leaves both models in training mode. With a generator
  that is in eval mode when \<^verbatim>\<open>train\<close> is called, an epoch that trains the Generator
  leaves it in eval mode: \<^verbatim>\<open>generator_input\<close> does not touch the mode, and
  \<^verbatim>\<open>eval\<close> reverts its own switch.
\<close>

theorem generator_left_in_eval_mode:
  "\<not> isl (train_step (example_env (\<lambda>s. G)) 2 (example_trainer False, [])) \<and>
   \<not> training (models (example_trainer False) G) \<and>
   \<not> training (models (fst (projr
       (train_step (example_env (\<lambda>s. G)) 2 (example_trainer False, [])))) G)"
proof -
  let ?r = "train_step (example_env (\<lambda>s. G)) 2 (example_trainer False, [])"
  from train_step_returns [OF example_contracts, of 2 "\<lambda>s. G" "(example_trainer False, [])"]
  obtain st' where r: "?r = Inr st'" by auto
  have g: "totrain_next (example_env (\<lambda>s. G)) (example_trainer False) = G"
    by (simp add: example_env_def)
  have i: "\<not> training (models (example_trainer False) G)"
    by (simp add: example_trainer_def init_def)
  from train_step_modes(2) [OF projr_Inr [OF r]] g i r show ?thesis by simp
qed

text \<open>
  Claim C9, amended. Every epoch that returns leaves the discriminator in training
  mode, whatever its mode was before; \<^verbatim>\<open>discriminator_input\<close> leaves the generator
  in training mode, and so does every epoch that trains the Discriminator; an epoch
  that trains the Generator leaves the generator in the mode it found it in.
\<close>

theorem modes_after_step:
  assumes "train_step env n_batch (s, all_dists) = Inr (s', all_dists')"
  shows "training (models s' D) \<and>
         (\<forall>r. discriminator_input env n_batch s = Inr r \<longrightarrow> training (models (snd r) G)) \<and>
         (totrain_next env s = D \<longrightarrow> training (models s' G)) \<and>
         (totrain_next env s = G \<longrightarrow> training (models s' G) = training (models s G))"
proof -
  have "training (models (snd r) G)" if "discriminator_input env n_batch s = Inr r" for r
    using discriminator_input_fields(1) [of env n_batch s] that by simp
  with train_step_modes [OF assms] show ?thesis
    by auto
qed

theorem modes_after_step_witness:
  "\<not> isl (train_step (example_env (\<lambda>s. D)) 2 (example_trainer False, [])) \<and>
   totrain_next (example_env (\<lambda>s. D)) (example_trainer False) = D \<and>
   training (models (fst (projr (train_step (example_env (\<lambda>s. D)) 2 (example_trainer False, [])))) D) \<and>
   training (models (fst (projr (train_step (example_env (\<lambda>s. D)) 2 (example_trainer False, [])))) G) \<and>
   \<not> isl (train_step (example_env (\<lambda>s. G)) 2 (example_trainer True, [])) \<and>
   totrain_next (example_env (\<lambda>s. G)) (example_trainer True) = G \<and>
   training (models (example_trainer True) G) \<and>
   training (models (fst (projr (train_step (example_env (\<lambda>s. G)) 2 (example_trainer True, [])))) D) \<and>
   training (models (fst (projr (train_step (example_env (\<lambda>s. G)) 2 (example_trainer True, [])))) G)"
proof -
  let ?d = "train_step (example_env (\<lambda>s. D)) 2 (example_trainer False, [])"
  let ?g = "train_step (example_env (\<lambda>s. G)) 2 (example_trainer True, [])"
  from train_step_returns [OF example_contracts, of 2 "\<lambda>s. D" "(example_trainer False, [])"]
  obtain sd where d: "?d = Inr sd" by auto
  from train_step_returns [OF example_contracts, of 2 "\<lambda>s. G" "(example_trainer True, [])"]
  obtain sg where g: "?g = Inr sg" by auto
  have p: "totrain_next (example_env (\<lambda>s. D)) (example_trainer False) = D"
    "totrain_next (example_env (\<lambda>s. G)) (example_trainer True) = G"
    by (simp_all add: example_env_def)
  have i: "training (models (example_trainer True) G)"
    by (simp add: example_trainer_def init_def)
  from modes_after_step [OF projr_Inr [OF d]] modes_after_step [OF projr_Inr [OF g]]
  show ?thesis
    using d g by (simp add: p i)
qed

end
